theory Spec2Isabelle
  imports Complex_Main "HOL-Library.Word"
begin

text \<open>
  This theory models the real-time audio pipeline and the utterance segmenter of the
  Dexent.ai voice application: the segmenter of language\_translation.py, the engine of
  audio\_pipeline/audio\_io.py, the preview job queue of realtime\_preview.py, and device
  resolution and the processing thread of audio\_routing.py and audio\_processor.py.
  The definitions come first, one section for each source file; the lemmas and the theorems
  about them follow. A source name that starts with an underscore is written without it, and
  a field whose name is an Isabelle keyword or is used by another record carries a prefix.
  Python objects that are mutated in place are passed in and returned; an exception is a
  value \<open>Inl\<close> with its text; threads are modelled by the order of their steps.
\<close>

section \<open>Utterance segmenter (language\_translation.py)\<close>

text \<open>
  Audio chunks are one-dimensional float32 arrays in the source. They are modelled as lists
  of reals: the arithmetic of \<open>np.mean(np.square(chunk))\<close> is exact here, the rounding
  of float32 is not modelled. The segmenter only compares the energy with a threshold.
\<close>

type_synonym audio = "real list"

text \<open>
  The dictionary returned by \<open>translate\<close> and \<open>translate_and_preserve_identity\<close>:
  either \<open>{"error": msg}\<close>, or the keys \<open>source_text\<close>, \<open>source_language\<close>,
  \<open>translated_text\<close>, \<open>target_language\<close> and (once it has been added) \<open>audio\<close>.
\<close>

datatype translation_result =
    ErrorResult string
  | Translation string "string option" string string "audio option"

fun has_error_key :: "translation_result \<Rightarrow> bool" where
  "has_error_key (ErrorResult e) = True"
| "has_error_key (Translation st sl tt tg a) = False"

text \<open>
  The manager object \<open>self\<close>. \<open>translate\<close> (Whisper) and \<open>synthesize_translation\<close> (TTS)
  wrap their whole body in \<open>try ... except Exception\<close> and return an error dictionary,
  respectively \<open>None\<close>, on any failure; what the external models compute is a parameter.
\<close>

record manager =
  translate :: "audio \<Rightarrow> string \<Rightarrow> string option \<Rightarrow> translation_result"
  synthesize_translation :: "string \<Rightarrow> string \<Rightarrow> string option \<Rightarrow> audio option"

text \<open>\<open>_extract_voice_characteristics\<close> returns a constant, non-empty dictionary.\<close>

record voice_characteristics =
  pitch_mean :: real
  pitch_range :: real
  speaking_rate :: real
  voice_quality :: string

definition extract_voice_characteristics :: "audio \<Rightarrow> voice_characteristics" where
  "extract_voice_characteristics audio_data =
     \<lparr>pitch_mean = 0, pitch_range = 0, speaking_rate = 1, voice_quality = ''neutral''\<rparr>"

definition apply_voice_characteristics :: "audio \<Rightarrow> voice_characteristics \<Rightarrow> audio" where
  "apply_voice_characteristics audio_data vc = audio_data"

definition translate_and_preserve_identity ::
  "manager \<Rightarrow> audio \<Rightarrow> string \<Rightarrow> string option \<Rightarrow> bool \<Rightarrow> string option
     \<Rightarrow> translation_result" where
  "translate_and_preserve_identity self audio_data target_language source_language
       identity_preservation voice_model =
     (case translate self audio_data target_language source_language of
        ErrorResult e \<Rightarrow> ErrorResult e
      | Translation st sl tt tg a \<Rightarrow>
          (case synthesize_translation self tt target_language voice_model of
             None \<Rightarrow> ErrorResult ''Failed to synthesize translation''
           | Some translated_audio \<Rightarrow>
               Translation st sl tt tg
                 (Some (if identity_preservation
                        then apply_voice_characteristics translated_audio
                               (extract_voice_characteristics audio_data)
                        else translated_audio))))"

text \<open>
  \<open>np.mean(np.square(chunk))\<close>; on an empty array numpy returns \<open>nan\<close> (with a
  warning), written \<open>None\<close> here, and \<open>nan > threshold\<close> is \<open>False\<close>.
\<close>

definition mean_square :: "audio \<Rightarrow> real option" where
  "mean_square audio_chunk =
     (if audio_chunk = [] then None
      else Some (sum_list (map (\<lambda>x. x * x) audio_chunk) / real (length audio_chunk)))"

definition detect_speech :: "audio \<Rightarrow> real \<Rightarrow> bool" where
  "detect_speech audio_chunk threshold =
     (case mean_square audio_chunk of None \<Rightarrow> False | Some energy \<Rightarrow> energy > threshold)"

definition default_threshold :: real where
  "default_threshold = 1 / 100"

text \<open>
  The context dictionary threaded through the calls of \<open>real_time_translate\<close>. The key
  \<open>translations\<close> is the field \<open>translations_log\<close>.
\<close>

record utterance_context =
  buffer :: audio
  last_translation :: "translation_result option"
  silence_frames :: int
  is_speaking :: bool
  current_utterance :: audio
  translations_log :: "translation_result list"

definition fresh_context :: utterance_context where
  "fresh_context =
     \<lparr>buffer = [], last_translation = None, silence_frames = 0, is_speaking = False,
      current_utterance = [], translations_log = []\<rparr>"

text \<open>
  The dictionary returned by one call. The key \<open>translation\<close> is present only when an
  utterance was finalized, the key \<open>error\<close> only in the \<open>except\<close> branch. With a
  one-dimensional chunk and a context that has all six keys, no statement of the
  \<open>try\<close> block raises, so \<open>r_error\<close> is always \<open>None\<close> in this model.
\<close>

record response =
  r_context :: utterance_context
  has_translation :: bool
  translation :: "translation_result option"
  r_error :: "string option"

text \<open>
  \<open>real_time_translate\<close>. The argument \<open>context\<close> is \<open>None\<close> for a falsy context
  (\<open>None\<close> or an empty dictionary), which the function replaces by a fresh one.
\<close>

definition context_or_fresh :: "utterance_context option \<Rightarrow> utterance_context" where
  "context_or_fresh context_arg = (case context_arg of None \<Rightarrow> fresh_context | Some c \<Rightarrow> c)"

definition real_time_translate ::
  "manager \<Rightarrow> audio \<Rightarrow> utterance_context option \<Rightarrow> string \<Rightarrow> string option \<Rightarrow> bool
     \<Rightarrow> string option \<Rightarrow> response" where
  "real_time_translate self audio_chunk context_arg target_language source_language
       identity_preservation voice_model =
     (let c0 = context_or_fresh context_arg;
          c1 = c0\<lparr>buffer := buffer c0 @ audio_chunk\<rparr>;
          is_speech = detect_speech audio_chunk default_threshold
      in if is_speech then
           \<lparr>r_context = c1\<lparr>silence_frames := 0, is_speaking := True,
                             current_utterance := current_utterance c1 @ audio_chunk\<rparr>,
            has_translation = False, translation = None, r_error = None\<rparr>
         else
           (let c2 = c1\<lparr>silence_frames := silence_frames c1 + 1\<rparr>
            in if is_speaking c2 \<and> silence_frames c2 \<ge> 10 then
                 (let c3 = c2\<lparr>is_speaking := False\<rparr>
                  in if length (current_utterance c3) > 0 then
                       (let translation_result =
                              translate_and_preserve_identity self (current_utterance c3)
                                target_language source_language identity_preservation
                                voice_model
                        in \<lparr>r_context = c3\<lparr>last_translation := Some translation_result,
                                             translations_log :=
                                               translations_log c3 @ [translation_result],
                                             current_utterance := []\<rparr>,
                            has_translation = True,
                            translation = Some translation_result, r_error = None\<rparr>)
                     else
                       \<lparr>r_context = c3, has_translation = False, translation = None,
                        r_error = None\<rparr>)
               else
                 \<lparr>r_context = c2, has_translation = False, translation = None,
                  r_error = None\<rparr>))"

text \<open>
  A session: the caller passes each chunk together with the context returned by the
  previous call. \<open>feed\<close> lists the responses, \<open>feed_context\<close> gives the context after
  the last chunk.
\<close>

fun feed ::
  "manager \<Rightarrow> string \<Rightarrow> string option \<Rightarrow> bool \<Rightarrow> string option
     \<Rightarrow> utterance_context option \<Rightarrow> audio list \<Rightarrow> response list" where
  "feed self tg sl ip vm c [] = []"
| "feed self tg sl ip vm c (x # xs) =
     (let r = real_time_translate self x c tg sl ip vm
      in r # feed self tg sl ip vm (Some (r_context r)) xs)"

fun feed_context ::
  "manager \<Rightarrow> string \<Rightarrow> string option \<Rightarrow> bool \<Rightarrow> string option
     \<Rightarrow> utterance_context option \<Rightarrow> audio list \<Rightarrow> utterance_context option" where
  "feed_context self tg sl ip vm c [] = c"
| "feed_context self tg sl ip vm c (x # xs) =
     feed_context self tg sl ip vm
       (Some (r_context (real_time_translate self x c tg sl ip vm))) xs"

text \<open>
  An invariant of the contexts a session reaches from a fresh one: the counter is never
  negative, and while the segmenter is in the Speaking state the utterance is not empty and
  fewer than ten silent chunks have been counted.
\<close>

definition segmenter_inv :: "utterance_context \<Rightarrow> bool" where
  "segmenter_inv c =
     (0 \<le> silence_frames c \<and>
      (is_speaking c \<longrightarrow> current_utterance c \<noteq> [] \<and> silence_frames c < 10))"

text \<open>Concrete inputs: a collaborator that always succeeds, a loud and a silent chunk.\<close>

definition stub_manager :: manager where
  "stub_manager =
     \<lparr>translate = (\<lambda>audio_data target_language source_language.
          Translation ''hola'' source_language ''hello'' target_language None),
      synthesize_translation = (\<lambda>translated_text target_language voice_model. Some [0])\<rparr>"

definition speech_chunk :: audio where "speech_chunk = [1, 0]"
definition silent_chunk :: audio where "silent_chunk = [0, 0]"

text \<open>
  A collaborator whose Whisper model is not loaded (\<open>translate\<close> then returns an error
  dictionary), and the context a fresh session reaches after one loud and nine silent chunks.
\<close>

definition error_manager :: manager where
  "error_manager =
     \<lparr>translate = (\<lambda>audio_data target_language source_language.
          ErrorResult ''Whisper model not loaded''),
      synthesize_translation = (\<lambda>translated_text target_language voice_model. None)\<rparr>"

definition speaking_context :: utterance_context where
  "speaking_context =
     \<lparr>buffer = speech_chunk @ concat (replicate 9 silent_chunk), last_translation = None,
      silence_frames = 9, is_speaking = True, current_utterance = speech_chunk,
      translations_log = []\<rparr>"

section \<open>Audio I/O engine (audio\_pipeline/audio\_io.py)\<close>

text \<open>
  \<open>queue.Queue(maxsize)\<close> of the standard library, used without blocking: \<open>put\<close>
  with \<open>block=False\<close> raises \<open>Full\<close> when \<open>maxsize > 0\<close> and the queue holds
  \<open>maxsize\<close> items (a \<open>maxsize\<close> of zero or less means no bound), \<open>get\<close> with
  \<open>block=False\<close> raises \<open>Empty\<close> on an empty queue. The oldest item is the head of
  the list.
\<close>

record 'a py_queue =
  maxsize :: int
  items :: "'a list"

datatype queue_error = Full | Empty

definition put_nowait :: "'a py_queue \<Rightarrow> 'a \<Rightarrow> queue_error + 'a py_queue" where
  "put_nowait q x =
     (if 0 < maxsize q \<and> maxsize q \<le> int (length (items q)) then Inl Full
      else Inr (q\<lparr>items := items q @ [x]\<rparr>))"

definition get_nowait :: "'a py_queue \<Rightarrow> queue_error + ('a \<times> 'a py_queue)" where
  "get_nowait q =
     (case items q of [] \<Rightarrow> Inl Empty | x # xs \<Rightarrow> Inr (x, q\<lparr>items := xs\<rparr>))"

text \<open>
  Frames travel as \<open>bytes\<close>; the worker reads them as int16 samples with
  \<open>np.frombuffer(in_data, dtype=np.int16)\<close> (native byte order, taken as little-endian),
  which raises \<open>ValueError\<close> on an odd number of bytes, and writes them back with
  \<open>tobytes\<close>.
\<close>

type_synonym frame_bytes = "8 word list"
type_synonym samples = "16 word list"

fun frombuffer :: "frame_bytes \<Rightarrow> string + samples" where
  "frombuffer [] = Inr []"
| "frombuffer [b] = Inl ''buffer size must be a multiple of element size''"
| "frombuffer (lo # hi # rest) =
     (case frombuffer rest of
        Inl e \<Rightarrow> Inl e
      | Inr xs \<Rightarrow> Inr ((word_cat hi lo :: 16 word) # xs))"

fun tobytes :: "samples \<Rightarrow> frame_bytes" where
  "tobytes [] = []"
| "tobytes (w # ws) = ucast w # ucast (drop_bit 8 w) # tobytes ws"

text \<open>
  What a processor may raise, by the handler of \<open>_process_audio\<close> that it reaches:
  \<open>queue.Empty\<close> or \<open>queue.Full\<close> (both print as the empty string), any other
  exception derived from \<open>Exception\<close>, with its text, or an exception outside
  \<open>Exception\<close> such as \<open>SystemExit\<close> or \<open>KeyboardInterrupt\<close>.
\<close>

datatype py_exception =
    RaisedQueue queue_error
  | RaisedException string
  | RaisedBaseException string

text \<open>
  A processor takes the sample array and returns the processed array, or raises
  (\<open>Inl\<close>). Processors are taken to return int16 arrays, so that
  \<open>astype(np.int16)\<close> changes nothing.
\<close>

type_synonym processor = "samples \<Rightarrow> py_exception + samples"

fun apply_processors :: "processor list \<Rightarrow> samples \<Rightarrow> py_exception + samples" where
  "apply_processors [] audio_data = Inr audio_data"
| "apply_processors (p # ps) audio_data =
     (case p audio_data of
        Inl e \<Rightarrow> Inl e
      | Inr audio_data' \<Rightarrow> apply_processors ps audio_data')"

datatype log_level = INFO | WARNING | ERROR

type_synonym log_record = "log_level \<times> string"

text \<open>
  The constants that audio\_io.py imports from \<open>config\<close>; config.py does not define
  them, so they are parameters. \<open>CHANNELS\<close> and the \<open>frame_count\<close> that PortAudio
  passes to a callback are natural numbers.
\<close>

record audio_config =
  SAMPLE_RATE :: nat
  CHANNELS :: nat
  FRAMES_PER_BUFFER :: nat
  FORMAT :: string

text \<open>The fields of an \<open>AudioIO\<close> object that the callbacks and the worker use.\<close>

record audio_io =
  input_queue :: "frame_bytes py_queue"
  output_queue :: "frame_bytes py_queue"
  is_running :: bool
  processors :: "processor list"
  log_records :: "log_record list"

text \<open>\<open>__init__\<close>: two empty queues of capacity 100, no processor, not running.\<close>

definition audio_io_init :: audio_io where
  "audio_io_init =
     \<lparr>input_queue = \<lparr>maxsize = 100, items = []\<rparr>,
      output_queue = \<lparr>maxsize = 100, items = []\<rparr>,
      is_running = False, processors = [],
      log_records = [(INFO, ''AudioIO initialized'')]\<rparr>"

definition add_processor :: "audio_io \<Rightarrow> processor \<Rightarrow> string \<Rightarrow> audio_io" where
  "add_processor self processor_func name =
     self\<lparr>processors := processors self @ [processor_func],
          log_records := log_records self @ [(INFO, ''Added audio processor: '' @ name)]\<rparr>"

datatype pa_flag = paContinue | paComplete | paAbort

definition input_callback ::
  "audio_io \<Rightarrow> frame_bytes \<Rightarrow> nat \<Rightarrow> audio_io \<times> (frame_bytes option \<times> pa_flag)" where
  "input_callback self in_data frame_count =
     (case put_nowait (input_queue self) in_data of
        Inr q \<Rightarrow> (self\<lparr>input_queue := q\<rparr>, (None, paContinue))
      | Inl e \<Rightarrow>
          (self\<lparr>log_records := log_records self @
                   [(WARNING, ''Input queue full, dropping frame'')]\<rparr>,
           (None, paContinue)))"

text \<open>\<open>bytes(n)\<close> for a natural number \<open>n\<close>: that many zero bytes.\<close>

definition zero_bytes :: "nat \<Rightarrow> frame_bytes" where
  "zero_bytes n = replicate n 0"

definition output_callback ::
  "audio_config \<Rightarrow> audio_io \<Rightarrow> nat \<Rightarrow> audio_io \<times> (frame_bytes option \<times> pa_flag)" where
  "output_callback cfg self frame_count =
     (case get_nowait (output_queue self) of
        Inr (data, q) \<Rightarrow> (self\<lparr>output_queue := q\<rparr>, (Some data, paContinue))
      | Inl e \<Rightarrow> (self, (Some (zero_bytes (frame_count * CHANNELS cfg * 2)), paContinue)))"

text \<open>
  The handlers of the \<open>try\<close> statement in \<open>_process_audio\<close>, in their order, for
  an exception that a processor raised. \<open>except queue.Empty\<close> comes first and also
  covers the processor calls: the worker sleeps and logs nothing. \<open>except Exception\<close>
  logs the exception. An exception outside \<open>Exception\<close> is not caught: it leaves the
  loop and ends the worker thread, and is returned as the second component.
\<close>

fun handle_worker_exception ::
  "audio_io \<Rightarrow> py_exception \<Rightarrow> audio_io \<times> py_exception option" where
  "handle_worker_exception self (RaisedQueue Empty) = (self, None)"
| "handle_worker_exception self (RaisedQueue Full) =
     (self\<lparr>log_records := log_records self @ [(ERROR, ''Error processing audio: '')]\<rparr>,
      None)"
| "handle_worker_exception self (RaisedException e) =
     (self\<lparr>log_records := log_records self @ [(ERROR, ''Error processing audio: '' @ e)]\<rparr>,
      None)"
| "handle_worker_exception self (RaisedBaseException e) =
     (self, Some (RaisedBaseException e))"

text \<open>
  One pass through the body of the \<open>while self.is_running\<close> loop of \<open>_process_audio\<close>:
  the engine after the pass, and the exception that left the loop, if any. With nothing in
  the input queue the \<open>get\<close> times out with \<open>Empty\<close> and the worker sleeps. The
  \<open>ValueError\<close> of \<open>np.frombuffer\<close> is logged by \<open>except Exception\<close>.
\<close>

definition process_audio_iteration :: "audio_io \<Rightarrow> audio_io \<times> py_exception option" where
  "process_audio_iteration self =
     (case get_nowait (input_queue self) of
        Inl e \<Rightarrow> (self, None)
      | Inr (in_data, q) \<Rightarrow>
          (let self1 = self\<lparr>input_queue := q\<rparr>
           in case frombuffer in_data of
                Inl e \<Rightarrow>
                  (self1\<lparr>log_records := log_records self1 @
                            [(ERROR, ''Error processing audio: '' @ e)]\<rparr>,
                   None)
              | Inr audio_data \<Rightarrow>
                  (case apply_processors (processors self1) audio_data of
                     Inl ex \<Rightarrow> handle_worker_exception self1 ex
                   | Inr audio_out \<Rightarrow>
                       (case put_nowait (output_queue self1) (tobytes audio_out) of
                          Inr q' \<Rightarrow> (self1\<lparr>output_queue := q'\<rparr>, None)
                        | Inl e \<Rightarrow>
                            (self1\<lparr>log_records := log_records self1 @
                                      [(WARNING, ''Output queue full, dropping frame'')]\<rparr>,
                             None)))))"

text \<open>
  What happens to an engine, in the order it happens: the capture callback delivers a
  frame, the playback callback asks for one, or the worker runs its loop body once. Whether
  the worker thread is still alive is not tracked, so these runs include every run of the
  code.
\<close>

datatype io_event = Capture frame_bytes nat | Playback nat | Worker

fun io_step :: "audio_config \<Rightarrow> audio_io \<Rightarrow> io_event \<Rightarrow> audio_io" where
  "io_step cfg self (Capture in_data frame_count) = fst (input_callback self in_data frame_count)"
| "io_step cfg self (Playback frame_count) = fst (output_callback cfg self frame_count)"
| "io_step cfg self Worker = fst (process_audio_iteration self)"

fun io_run :: "audio_config \<Rightarrow> audio_io \<Rightarrow> io_event list \<Rightarrow> audio_io" where
  "io_run cfg self [] = self"
| "io_run cfg self (e # es) = io_run cfg (io_step cfg self e) es"

text \<open>
  \<open>_get_pyaudio_format\<close>, with \<open>str.lower\<close> on ASCII letters, and the number of bytes
  of one sample in each PyAudio format (\<open>pyaudio.get_sample_size\<close>). The output stream
  is opened with this format and \<open>CHANNELS\<close> channels, so PortAudio expects
  \<open>frame_count * CHANNELS * get_sample_size format\<close> bytes from the playback callback.
\<close>

datatype pa_format = paFloat32 | paInt32 | paInt24 | paInt16

definition lower_char :: "char \<Rightarrow> char" where
  "lower_char c =
     (case map_of (zip ''ABCDEFGHIJKLMNOPQRSTUVWXYZ'' ''abcdefghijklmnopqrstuvwxyz'') c of
        Some l \<Rightarrow> l
      | None \<Rightarrow> c)"

definition get_pyaudio_format :: "string \<Rightarrow> pa_format" where
  "get_pyaudio_format format_str =
     (case map_of [(''int16'', paInt16), (''int24'', paInt24), (''int32'', paInt32),
                   (''float32'', paFloat32)] (map lower_char format_str) of
        Some f \<Rightarrow> f
      | None \<Rightarrow> paInt16)"

fun get_sample_size :: "pa_format \<Rightarrow> nat" where
  "get_sample_size paFloat32 = 4"
| "get_sample_size paInt32 = 4"
| "get_sample_size paInt24 = 3"
| "get_sample_size paInt16 = 2"

definition requested_length :: "audio_config \<Rightarrow> nat \<Rightarrow> nat" where
  "requested_length cfg frame_count =
     frame_count * CHANNELS cfg * get_sample_size (get_pyaudio_format (FORMAT cfg))"

text \<open>Both queues have capacity \<open>C\<close> and hold at most \<open>C\<close> frames.\<close>

definition queues_within :: "int \<Rightarrow> audio_io \<Rightarrow> bool" where
  "queues_within C self =
     (maxsize (input_queue self) = C \<and> maxsize (output_queue self) = C
      \<and> int (length (items (input_queue self))) \<le> C
      \<and> int (length (items (output_queue self))) \<le> C)"

text \<open>Concrete inputs: configurations, a processor that raises, a frame of two samples.\<close>

definition int16_config :: audio_config where
  "int16_config = \<lparr>SAMPLE_RATE = 16000, CHANNELS = 1, FRAMES_PER_BUFFER = 1024,
     FORMAT = ''int16''\<rparr>"

definition float32_config :: audio_config where
  "float32_config = \<lparr>SAMPLE_RATE = 16000, CHANNELS = 1, FRAMES_PER_BUFFER = 1024,
     FORMAT = ''float32''\<rparr>"

definition raising_processor :: processor where
  "raising_processor audio_data = Inl (RaisedException ''division by zero'')"

definition empty_raising_processor :: processor where
  "empty_raising_processor audio_data = Inl (RaisedQueue Empty)"

definition exiting_processor :: processor where
  "exiting_processor audio_data = Inl (RaisedBaseException ''SystemExit'')"

definition identity_processor :: processor where
  "identity_processor audio_data = Inr audio_data"

definition two_sample_frame :: frame_bytes where
  "two_sample_frame = [1, 0, 2, 0]"

text \<open>
  Engines with one registered processor that raises (an ordinary exception,
  \<open>queue.Empty\<close>, \<open>SystemExit\<close>), and an engine whose two queues are both full.
\<close>

definition raising_engine :: audio_io where
  "raising_engine =
     (add_processor audio_io_init raising_processor ''raising_processor'')\<lparr>is_running := True\<rparr>"

definition empty_raising_engine :: audio_io where
  "empty_raising_engine =
     (add_processor audio_io_init empty_raising_processor
        ''empty_raising_processor'')\<lparr>is_running := True\<rparr>"

definition exiting_engine :: audio_io where
  "exiting_engine =
     (add_processor audio_io_init exiting_processor ''exiting_processor'')\<lparr>is_running := True\<rparr>"

definition congested_engine :: audio_io where
  "congested_engine =
     audio_io_init\<lparr>input_queue := \<lparr>maxsize = 100, items = replicate 100 two_sample_frame\<rparr>,
                   output_queue := \<lparr>maxsize = 100, items = replicate 100 two_sample_frame\<rparr>,
                   is_running := True\<rparr>"

section \<open>Preview job queue (realtime\_preview.py)\<close>

text \<open>
  A job record of \<open>current_jobs\<close>; the key \<open>result\<close> is absent until a result is
  stored. Time stamps are the strings that \<open>datetime.now()\<close> gives, passed as arguments.
\<close>

record job_parameters =
  p_target_accent :: string
  p_noise_suppression :: bool
  p_identity_preservation :: bool

record job =
  job_id :: string
  status :: string
  created_at :: string
  updated_at :: string
  parameters :: job_parameters
  result :: "string option"


text \<open>
  What the processor calls outside this file: the noise suppressor, the accent converter
  (created on demand for the target accent) and \<open>soundfile.write\<close>. Each takes its
  input and returns a value or raises (\<open>Inl\<close>); a Python value that may be \<open>None\<close> is
  an option.
\<close>

record preview_env =
  noise_suppressor_process :: "audio option \<Rightarrow> string + audio option"
  accent_converter_process :: "string \<Rightarrow> audio option \<Rightarrow> bool \<Rightarrow> string + audio option"
  sf_write :: "string \<Rightarrow> audio \<Rightarrow> string + unit"



text \<open>\<open>_process_audio\<close>: any exception of a processing step is logged and gives \<open>None\<close>.\<close>

definition process_audio ::
  "preview_env \<Rightarrow> audio \<Rightarrow> string \<Rightarrow> bool \<Rightarrow> bool \<Rightarrow> audio option" where
  "process_audio env audio target noise_supp identity =
     (case (if noise_supp then noise_suppressor_process env (Some audio) else Inr (Some audio)) of
        Inl e \<Rightarrow> None
      | Inr a1 \<Rightarrow>
          if target \<noteq> [] then
            (case accent_converter_process env target a1 identity of
               Inl e \<Rightarrow> None
             | Inr a2 \<Rightarrow> a2)
          else a1)"










definition silent_env :: preview_env where
  "silent_env =
     \<lparr>noise_suppressor_process = (\<lambda>a. Inr None),
      accent_converter_process = (\<lambda>accent a identity. Inr a),
      sf_write = (\<lambda>path a. Inr ())\<rparr>"

section \<open>Device resolution and the processing thread (audio\_routing.py, audio\_processor.py)\<close>

text \<open>
  What sounddevice reports: the default device ids (\<open>None\<close> also when reading them
  raises), the list of \<open>sd.query_devices()\<close> or the exception it raises, and the platform
  name. A device dictionary has an optional \<open>name\<close>; a missing channel count reads as 0.
\<close>

record device_info =
  dev_name :: "string option"
  max_input_channels :: int
  max_output_channels :: int

record sound_system =
  default_input_id :: "int option"
  default_output_id :: "int option"
  devices :: "string + device_info list"
  platform :: string

text \<open>\<open>sd.query_devices(device=i)\<close>: the entry of the list, or an exception.\<close>

definition query_device :: "sound_system \<Rightarrow> int \<Rightarrow> string + device_info" where
  "query_device sys i =
     (case devices sys of
        Inl e \<Rightarrow> Inl e
      | Inr ds \<Rightarrow>
          if 0 \<le> i \<and> nat i < length ds then Inr (ds ! nat i)
          else Inl ''Error querying device'')"

text \<open>The test \<open>sub in s\<close> on strings.\<close>

fun contains :: "string \<Rightarrow> string \<Rightarrow> bool" where
  "contains sub [] = (sub = [])"
| "contains sub (c # cs) = (take (length sub) (c # cs) = sub \<or> contains sub cs)"

text \<open>
  \<open>get_input_device\<close> returns a device name. It returns \<open>None\<close> only when the chosen
  device dictionary has no name; when no device is found it returns the made-up name
  \<open>Dexent Virtual Input\<close>.
\<close>

definition get_input_device :: "sound_system \<Rightarrow> string option" where
  "get_input_device sys =
     (let fallback =
            (case devices sys of
               Inl e \<Rightarrow> Some ''Dexent Virtual Input''
             | Inr ds \<Rightarrow>
                 (case find (\<lambda>d. max_input_channels d > 0) ds of
                    Some d \<Rightarrow> dev_name d
                  | None \<Rightarrow> Some ''Dexent Virtual Input''))
      in case default_input_id sys of
           None \<Rightarrow> fallback
         | Some i \<Rightarrow>
             if i \<ge> 0 then
               (case query_device sys i of
                  Inr d \<Rightarrow> dev_name d
                | Inl e \<Rightarrow> fallback)
             else fallback)"

definition get_output_device :: "sound_system \<Rightarrow> string option" where
  "get_output_device sys =
     (let fallback =
            (case devices sys of
               Inl e \<Rightarrow> Some ''Dexent Virtual Output''
             | Inr ds \<Rightarrow>
                 if ds = [] then Some ''Dexent Virtual Output''
                 else
                   (let virtual_devices =
                          (if platform sys = ''Windows'' then
                             filter (\<lambda>d. contains ''VB-Audio''
                                            (case dev_name d of None \<Rightarrow> [] | Some n \<Rightarrow> n)
                                          \<and> max_output_channels d > 0) ds
                           else if platform sys = ''Darwin'' then
                             filter (\<lambda>d. contains ''BlackHole''
                                            (case dev_name d of None \<Rightarrow> [] | Some n \<Rightarrow> n)
                                          \<and> max_output_channels d > 0) ds
                           else [])
                    in case virtual_devices of
                         v # vs \<Rightarrow> dev_name v
                       | [] \<Rightarrow>
                           (case find (\<lambda>d. max_output_channels d > 0) ds of
                              Some d \<Rightarrow> dev_name d
                            | None \<Rightarrow> Some ''Dexent Virtual Output'')))
      in case default_output_id sys of
           None \<Rightarrow> fallback
         | Some i \<Rightarrow>
             if i \<ge> 0 then
               (case query_device sys i of
                  Inr d \<Rightarrow> dev_name d
                | Inl e \<Rightarrow> fallback)
             else fallback)"

text \<open>\<open>not device\<close> for a name that may be \<open>None\<close>: true for \<open>None\<close> and for the empty string.\<close>

definition falsy :: "string option \<Rightarrow> bool" where
  "falsy device = (case device of None \<Rightarrow> True | Some n \<Rightarrow> n = [])"

text \<open>
  Floating-point arithmetic of the mock signal: \<open>f64\<close> rounds the exact result of an
  operation, or a constant, to a double; \<open>fsin\<close> is the sine that numpy computes on
  doubles; \<open>f32\<close> is the conversion \<open>astype(np.float32)\<close>. The three are parameters,
  and \<open>exact_arith\<close> is the arithmetic without rounding.
\<close>

record float_arith =
  f64 :: "real \<Rightarrow> real"
  fsin :: "real \<Rightarrow> real"
  f32 :: "real \<Rightarrow> real"

definition exact_arith :: float_arith where
  "exact_arith = \<lparr>f64 = (\<lambda>x. x), fsin = sin, f32 = (\<lambda>x. x)\<rparr>"

text \<open>
  The mock test signal of \<open>_run_mock_processing_loop\<close>: \<open>int(sample_rate * 3.0)\<close>
  samples at the times \<open>np.linspace(0, 3, N, False)\<close> (the index times the step
  \<open>3 / N\<close>), the sine \<open>0.3 * np.sin(2 * np.pi * 440.0 * t)\<close> plus the noise
  \<open>0.05 * np.random.normal(0, 1, N)\<close>, converted to float32. The generator is not
  seeded, so the samples it draws in a run are a parameter \<open>noise\<close>.
\<close>

definition mock_audio :: "float_arith \<Rightarrow> nat \<Rightarrow> (nat \<Rightarrow> real) \<Rightarrow> audio" where
  "mock_audio fa sample_rate noise =
     (let N = 3 * sample_rate;
          step = f64 fa (3 / real N);
          w = f64 fa (f64 fa (2 * f64 fa pi) * 440)
      in map (\<lambda>i. f32 fa
                  (f64 fa (f64 fa (f64 fa (3 / 10) *
                                   fsin fa (f64 fa (w * f64 fa (real i * step))))
                           + f64 fa (f64 fa (5 / 100) * noise i))))
           [0..<N])"

text \<open>
  \<open>[mock_audio[i:i+chunk_size] for i in range(0, len(mock_audio), chunk_size)]\<close> for a
  positive \<open>chunk_size\<close>; with \<open>chunk_size = 0\<close> the \<open>range\<close> raises, which the caller
  of this function handles.
\<close>

function slice_chunks :: "nat \<Rightarrow> 'a list \<Rightarrow> 'a list list" where
  "slice_chunks chunk_size xs =
     (if chunk_size = 0 \<or> xs = [] then []
      else take chunk_size xs # slice_chunks chunk_size (drop chunk_size xs))"
  by pat_completeness auto
termination
  by (relation "measure (\<lambda>(chunk_size, xs). length xs)") auto

declare slice_chunks.simps [simp del]

text \<open>
  The fields of an \<open>AudioProcessor\<close> that the thread uses, and \<open>process_calls\<close>: the
  chunks handed to \<open>self.process_audio\<close> by the mock loop, in order.
\<close>

record audio_processor =
  ap_sample_rate :: nat
  ap_buffer_size :: nat
  ap_running :: bool
  ap_log :: "log_record list"
  process_calls :: "audio list"

definition audio_processor_init :: "nat \<Rightarrow> nat \<Rightarrow> audio_processor" where
  "audio_processor_init sample_rate buffer_size =
     \<lparr>ap_sample_rate = sample_rate, ap_buffer_size = buffer_size, ap_running = False,
      ap_log = [(INFO, ''Audio processor initialized'')], process_calls = []\<rparr>"

text \<open>\<open>start\<close> sets the flag; the thread it creates runs \<open>_processing_loop\<close>.\<close>

definition start :: "audio_processor \<Rightarrow> audio_processor" where
  "start self =
     (if ap_running self
      then self\<lparr>ap_log := ap_log self @ [(WARNING, ''Audio processor is already running'')]\<rparr>
      else self\<lparr>ap_running := True,
                ap_log := ap_log self @ [(INFO, ''Audio processor started'')]\<rparr>)"

text \<open>
  The surroundings of the thread: the sound system, what opening \<open>sd.Stream\<close> does (first
  with the resolved devices, then with the defaults), what \<open>process_audio\<close> does with a
  chunk, the floating-point arithmetic, the noise drawn, and whether another thread has
  called \<open>stop\<close> by the time of the \<open>k\<close>-th test of \<open>while self.running\<close>.
\<close>

datatype stream_open = Opened | RaisesValueError string | RaisesError string

record thread_env =
  sound :: sound_system
  first_stream :: stream_open
  fallback_stream :: stream_open
  process_fn :: "audio \<Rightarrow> string + audio"
  arith :: float_arith
  noise_drawn :: "nat \<Rightarrow> real"
  stop_requested :: "nat \<Rightarrow> bool"

text \<open>
  A loop that runs until the flag is cleared may run forever. \<open>fuel\<close> bounds the number
  of times its body is run: the result is \<open>Returned\<close> when the loop was left, and
  \<open>StillRunning\<close> with the state reached when the fuel is used up.
\<close>

datatype 'a outcome = Returned 'a | StillRunning 'a

text \<open>\<open>while self.running: time.sleep(0.1)\<close> with an open stream.\<close>

fun wait_while_running ::
  "thread_env \<Rightarrow> nat \<Rightarrow> nat \<Rightarrow> audio_processor \<Rightarrow> audio_processor outcome" where
  "wait_while_running env fuel k self =
     (let self1 = (if stop_requested env k then self\<lparr>ap_running := False\<rparr> else self)
      in if \<not> ap_running self1 then Returned self1
         else (case fuel of
                 0 \<Rightarrow> StillRunning self1
               | Suc n \<Rightarrow> wait_while_running env n (Suc k) self1))"

declare wait_while_running.simps [simp del]

text \<open>
  The \<open>while self.running\<close> loop of the mock mode. An exception in the body (the modulo
  by the number of chunks when there is none, or \<open>process_audio\<close> raising) reaches the
  handler of \<open>_run_mock_processing_loop\<close>, which logs it and clears the flag.
\<close>

fun mock_loop ::
  "thread_env \<Rightarrow> audio list \<Rightarrow> nat \<Rightarrow> nat \<Rightarrow> audio_processor \<Rightarrow> audio_processor outcome" where
  "mock_loop env chunks fuel chunk_index self =
     (let self1 = (if stop_requested env chunk_index then self\<lparr>ap_running := False\<rparr>
                   else self)
      in if \<not> ap_running self1 then
           Returned (self1\<lparr>ap_log := ap_log self1 @ [(INFO, ''Mock audio processing stopped'')]\<rparr>)
         else
           (case fuel of
              0 \<Rightarrow> StillRunning self1
            | Suc n \<Rightarrow>
                if chunks = [] then
                  Returned (self1\<lparr>ap_running := False,
                                  ap_log := ap_log self1 @
                                    [(ERROR, ''Error in mock processing loop: modulo by zero'')]\<rparr>)
                else
                  (let current_chunk = chunks ! (chunk_index mod length chunks);
                       self2 = self1\<lparr>process_calls := process_calls self1 @ [current_chunk]\<rparr>
                   in case process_fn env current_chunk of
                        Inl e \<Rightarrow>
                          Returned (self2\<lparr>ap_running := False,
                                          ap_log := ap_log self2 @
                                            [(ERROR, ''Error in mock processing loop: '' @ e)]\<rparr>)
                      | Inr processed_chunk \<Rightarrow>
                          mock_loop env chunks n (Suc chunk_index)
                            (if chunk_index mod 10 = 0
                             then self2\<lparr>ap_log := ap_log self2 @
                                          [(INFO, ''Processed mock audio chunk'')]\<rparr>
                             else self2))))"

declare mock_loop.simps [simp del]

definition run_mock_processing_loop ::
  "thread_env \<Rightarrow> nat \<Rightarrow> audio_processor \<Rightarrow> audio_processor outcome" where
  "run_mock_processing_loop env fuel self =
     (let self0 = self\<lparr>ap_log := ap_log self @
                     [(INFO, ''Starting mock audio processing (simulation mode)'')]\<rparr>
      in if ap_buffer_size self0 = 0 then
           Returned (self0\<lparr>ap_running := False,
                           ap_log := ap_log self0 @
                             [(ERROR, ''Error in mock processing loop: range() arg 3 must not be zero'')]\<rparr>)
         else
           mock_loop env
             (slice_chunks (ap_buffer_size self0)
                (mock_audio (arith env) (ap_sample_rate self0) (noise_drawn env)))
             fuel 0 self0)"

text \<open>The \<open>finally\<close> clause of \<open>_processing_loop\<close>, run when the thread leaves it.\<close>

fun finally_cleanup :: "audio_processor outcome \<Rightarrow> audio_processor outcome" where
  "finally_cleanup (Returned self) =
     Returned (self\<lparr>ap_log := ap_log self @ [(INFO, ''Audio processing loop ended'')]\<rparr>)"
| "finally_cleanup (StillRunning self) = StillRunning self"

text \<open>The handler \<open>except Exception\<close> of \<open>_processing_loop\<close>.\<close>

definition on_loop_exception ::
  "thread_env \<Rightarrow> nat \<Rightarrow> audio_processor \<Rightarrow> string \<Rightarrow> audio_processor outcome" where
  "on_loop_exception env fuel self e =
     (let self1 = self\<lparr>ap_log := ap_log self @
                     [(ERROR, ''Error in audio processing loop: '' @ e)]\<rparr>;
          self2 = self1\<lparr>ap_running := False\<rparr>
      in run_mock_processing_loop env fuel self2)"

definition processing_loop ::
  "thread_env \<Rightarrow> nat \<Rightarrow> audio_processor \<Rightarrow> audio_processor outcome" where
  "processing_loop env fuel self =
     finally_cleanup
       (let input_device = get_input_device (sound env);
            output_device = get_output_device (sound env)
        in if falsy input_device \<or> falsy output_device then
             run_mock_processing_loop env fuel
               (self\<lparr>ap_log := ap_log self @
                  [(ERROR, ''No audio devices available - using mock devices for testing'')]\<rparr>)
           else
             (case first_stream env of
                Opened \<Rightarrow> wait_while_running env fuel 0 self
              | RaisesValueError ve \<Rightarrow>
                  (let self1 = self\<lparr>ap_log := ap_log self @
                                  [(ERROR, ''Invalid parameters for audio stream: '' @ ve),
                                   (INFO, ''Falling back to default devices'')]\<rparr>
                   in case fallback_stream env of
                        Opened \<Rightarrow> wait_while_running env fuel 0 self1
                      | RaisesValueError e \<Rightarrow> on_loop_exception env fuel self1 e
                      | RaisesError e \<Rightarrow> on_loop_exception env fuel self1 e)
              | RaisesError e \<Rightarrow> on_loop_exception env fuel self e))"

text \<open>
  Concrete surroundings: a machine with no audio device at all, where no stream can be
  opened, and a machine whose default devices have no name. Processing returns the chunk,
  the arithmetic is exact, the noise is zero, and nobody calls \<open>stop\<close>.
\<close>

definition no_devices :: sound_system where
  "no_devices =
     \<lparr>default_input_id = Some (- 1), default_output_id = Some (- 1), devices = Inr [],
      platform = ''Linux''\<rparr>"

definition no_devices_env :: thread_env where
  "no_devices_env =
     \<lparr>sound = no_devices,
      first_stream = RaisesValueError ''No input device matching Dexent Virtual Input'',
      fallback_stream = RaisesError ''Error querying device -1'',
      process_fn = (\<lambda>chunk. Inr chunk), arith = exact_arith, noise_drawn = (\<lambda>i. 0),
      stop_requested = (\<lambda>k. False)\<rparr>"

definition nameless_devices_env :: thread_env where
  "nameless_devices_env =
     \<lparr>sound = \<lparr>default_input_id = Some 0, default_output_id = Some 0,
               devices = Inr [\<lparr>dev_name = None, max_input_channels = 1,
                                max_output_channels = 1\<rparr>],
               platform = ''Linux''\<rparr>,
      first_stream = Opened, fallback_stream = Opened,
      process_fn = (\<lambda>chunk. Inr chunk), arith = exact_arith, noise_drawn = (\<lambda>i. 0),
      stop_requested = (\<lambda>k. False)\<rparr>"

text \<open>Noise draws of three runs: all zero, all one, and zero for the first three samples only.\<close>

definition quiet_noise :: "nat \<Rightarrow> real" where "quiet_noise i = 0"
definition unit_noise :: "nat \<Rightarrow> real" where "unit_noise i = 1"
definition late_noise :: "nat \<Rightarrow> real" where "late_noise i = (if i < 3 then 0 else 1)"

section \<open>The segmenter: single steps and runs\<close>

lemma detect_speech_nonempty: "detect_speech x t \<Longrightarrow> x \<noteq> []"
  by (auto simp: detect_speech_def mean_square_def)

lemma rtt_speech:
  "detect_speech x default_threshold \<Longrightarrow>
   real_time_translate self x c tg sl ip vm =
     \<lparr>r_context = (context_or_fresh c)\<lparr>buffer := buffer (context_or_fresh c) @ x, silence_frames := 0,
          is_speaking := True, current_utterance := current_utterance (context_or_fresh c) @ x\<rparr>,
      has_translation = False, translation = None, r_error = None\<rparr>"
  by (simp add: real_time_translate_def Let_def)

lemma rtt_silence_open:
  "\<not> detect_speech x default_threshold \<Longrightarrow>
   \<not> (is_speaking (context_or_fresh c) \<and> silence_frames (context_or_fresh c) + 1 \<ge> 10) \<Longrightarrow>
   real_time_translate self x c tg sl ip vm =
     \<lparr>r_context = (context_or_fresh c)\<lparr>buffer := buffer (context_or_fresh c) @ x,
          silence_frames := silence_frames (context_or_fresh c) + 1\<rparr>,
      has_translation = False, translation = None, r_error = None\<rparr>"
  by (auto simp add: real_time_translate_def Let_def)

lemma rtt_silence_finalize:
  "\<not> detect_speech x default_threshold \<Longrightarrow>
   is_speaking (context_or_fresh c) \<Longrightarrow> silence_frames (context_or_fresh c) + 1 \<ge> 10 \<Longrightarrow>
   current_utterance (context_or_fresh c) \<noteq> [] \<Longrightarrow>
   real_time_translate self x c tg sl ip vm =
     (let res = translate_and_preserve_identity self (current_utterance (context_or_fresh c)) tg sl ip vm in
     \<lparr>r_context = (context_or_fresh c)\<lparr>buffer := buffer (context_or_fresh c) @ x,
          silence_frames := silence_frames (context_or_fresh c) + 1,
          is_speaking := False,
          last_translation := Some res,
          translations_log := translations_log (context_or_fresh c) @ [res],
          current_utterance := []\<rparr>,
      has_translation = True, translation = Some res, r_error = None\<rparr>)"
  by (simp add: real_time_translate_def Let_def)

lemma feed_append:
  "feed self tg sl ip vm c (xs @ ys) =
     feed self tg sl ip vm c xs @ feed self tg sl ip vm (feed_context self tg sl ip vm c xs) ys"
  by (induction xs arbitrary: c) (simp_all add: Let_def)

lemma feed_context_append:
  "feed_context self tg sl ip vm c (xs @ ys) =
     feed_context self tg sl ip vm (feed_context self tg sl ip vm c xs) ys"
  by (induction xs arbitrary: c) simp_all

lemma length_feed: "length (feed self tg sl ip vm c xs) = length xs"
  by (induction xs arbitrary: c) (simp_all add: Let_def)

lemma segmenter_inv_fresh: "segmenter_inv fresh_context"
  by (simp add: segmenter_inv_def fresh_context_def)

lemma segmenter_inv_step:
  "segmenter_inv (context_or_fresh c) \<Longrightarrow>
   segmenter_inv (r_context (real_time_translate self x c tg sl ip vm))"
  by (auto simp add: real_time_translate_def Let_def segmenter_inv_def detect_speech_nonempty)

lemma segmenter_inv_feed:
  "segmenter_inv (context_or_fresh c) \<Longrightarrow>
   segmenter_inv (context_or_fresh (feed_context self tg sl ip vm c xs))"
proof (induction xs arbitrary: c)
  case Nil
  then show ?case by simp
next
  case (Cons x xs)
  have "segmenter_inv (context_or_fresh (Some (r_context (real_time_translate self x c tg sl ip vm))))"
    using Cons.prems by (simp add: context_or_fresh_def segmenter_inv_step)
  then show ?case using Cons.IH by simp
qed

text \<open>A run of voice-active chunks never finalizes and leaves the segmenter Speaking.\<close>

lemma feed_speech:
  "\<forall>x \<in> set xs. detect_speech x default_threshold \<Longrightarrow>
   map has_translation (feed self tg sl ip vm c xs) = replicate (length xs) False"
  by (induction xs arbitrary: c) (simp_all add: Let_def rtt_speech)

lemma feed_context_speech:
  "\<forall>x \<in> set xs. detect_speech x default_threshold \<Longrightarrow> xs \<noteq> [] \<Longrightarrow>
   feed_context self tg sl ip vm c xs =
     Some ((context_or_fresh c)\<lparr>buffer := buffer (context_or_fresh c) @ concat xs,
        silence_frames := 0, is_speaking := True,
        current_utterance := current_utterance (context_or_fresh c) @ concat xs\<rparr>)"
proof (induction xs arbitrary: c)
  case Nil
  then show ?case by simp
next
  case (Cons x xs)
  show ?case
  proof (cases "xs = []")
    case True
    then show ?thesis using Cons.prems by (simp add: rtt_speech)
  next
    case False
    then show ?thesis using Cons.prems Cons.IH
      by (simp add: rtt_speech context_or_fresh_def)
  qed
qed

text \<open>Silent chunks while the counter stays below ten leave the utterance open.\<close>

lemma feed_silence_open:
  "\<forall>x \<in> set xs. \<not> detect_speech x default_threshold \<Longrightarrow>
   is_speaking c \<Longrightarrow> silence_frames c + int (length xs) < 10 \<Longrightarrow>
   map has_translation (feed self tg sl ip vm (Some c) xs) = replicate (length xs) False \<and>
   feed_context self tg sl ip vm (Some c) xs =
     Some (c\<lparr>buffer := buffer c @ concat xs,
        silence_frames := silence_frames c + int (length xs)\<rparr>)"
proof (induction xs arbitrary: c)
  case Nil
  then show ?case by simp
next
  case (Cons x xs)
  let ?c1 = "c\<lparr>buffer := buffer c @ x, silence_frames := silence_frames c + 1\<rparr>"
  have step: "real_time_translate self x (Some c) tg sl ip vm =
     \<lparr>r_context = ?c1, has_translation = False, translation = None, r_error = None\<rparr>"
    using Cons.prems rtt_silence_open[of x "Some c" self tg sl ip vm]
    by (simp add: context_or_fresh_def)
  have "map has_translation (feed self tg sl ip vm (Some ?c1) xs) = replicate (length xs) False \<and>
   feed_context self tg sl ip vm (Some ?c1) xs =
     Some (?c1\<lparr>buffer := buffer ?c1 @ concat xs,
        silence_frames := silence_frames ?c1 + int (length xs)\<rparr>)"
    using Cons.prems by (intro Cons.IH) simp_all
  then show ?case using step by (simp add: Let_def add.assoc add.commute)
qed

text \<open>Silent chunks in the Idle state only count.\<close>

lemma feed_silence_idle:
  "\<forall>x \<in> set xs. \<not> detect_speech x default_threshold \<Longrightarrow>
   \<not> is_speaking c \<Longrightarrow>
   map has_translation (feed self tg sl ip vm (Some c) xs) = replicate (length xs) False \<and>
   feed_context self tg sl ip vm (Some c) xs =
     Some (c\<lparr>buffer := buffer c @ concat xs,
        silence_frames := silence_frames c + int (length xs)\<rparr>)"
proof (induction xs arbitrary: c)
  case Nil
  then show ?case by simp
next
  case (Cons x xs)
  let ?c1 = "c\<lparr>buffer := buffer c @ x, silence_frames := silence_frames c + 1\<rparr>"
  have step: "real_time_translate self x (Some c) tg sl ip vm =
     \<lparr>r_context = ?c1, has_translation = False, translation = None, r_error = None\<rparr>"
    using Cons.prems rtt_silence_open[of x "Some c" self tg sl ip vm]
    by (simp add: context_or_fresh_def)
  have "map has_translation (feed self tg sl ip vm (Some ?c1) xs) = replicate (length xs) False \<and>
   feed_context self tg sl ip vm (Some ?c1) xs =
     Some (?c1\<lparr>buffer := buffer ?c1 @ concat xs,
        silence_frames := silence_frames ?c1 + int (length xs)\<rparr>)"
    using Cons.prems by (intro Cons.IH) simp_all
  then show ?case using step by (simp add: Let_def add.assoc add.commute)
qed

lemma concat_speech_nonempty:
  "xs \<noteq> [] \<Longrightarrow> \<forall>x \<in> set xs. detect_speech x t \<Longrightarrow> concat xs \<noteq> []"
  by (cases xs) (auto dest: detect_speech_nonempty)

text \<open>
  From an Idle context with an empty utterance: a non-empty voice-active run and at least ten
  silent chunks finalize exactly one utterance, at the tenth silent chunk.
\<close>

lemma split_at_tenth:
  assumes "10 \<le> length (xs :: 'a list)"
  shows "xs = take 9 xs @ xs ! 9 # drop 10 xs"
proof -
  have "9 < length xs" using assms by simp
  then have "drop 9 xs = xs ! 9 # drop (Suc 9) xs"
    by (rule Cons_nth_drop_Suc[symmetric])
  then have "take 9 xs @ xs ! 9 # drop 10 xs = xs"
    by (metis append_take_drop_id Suc_numeral semiring_norm(5) semiring_norm(8))
  then show ?thesis by simp
qed

lemma utterance_from_idle:
  assumes idle0: "\<not> is_speaking (context_or_fresh c)"
    and cu0: "current_utterance (context_or_fresh c) = []"
    and ne: "speech \<noteq> []"
    and sp: "\<forall>x \<in> set speech. detect_speech x default_threshold"
    and si: "\<forall>x \<in> set silence. \<not> detect_speech x default_threshold"
    and len: "10 \<le> length silence"
  shows "map has_translation (feed self tg sl ip vm c (speech @ silence)) =
           replicate (length speech + 9) False @ [True] @ replicate (length silence - 10) False
         \<and> translation (feed self tg sl ip vm c (speech @ silence) ! (length speech + 9)) =
             Some (translate_and_preserve_identity self (concat speech) tg sl ip vm)
         \<and> (\<exists>c'. feed_context self tg sl ip vm c (speech @ silence) = Some c'
              \<and> translations_log c' = translations_log (context_or_fresh c) @
                    [translate_and_preserve_identity self (concat speech) tg sl ip vm]
              \<and> current_utterance c' = [] \<and> \<not> is_speaking c')"
proof -
  define res where "res = translate_and_preserve_identity self (concat speech) tg sl ip vm"
  define k0 where "k0 = context_or_fresh c"
  define s9 where "s9 = take 9 silence"
  define x10 where "x10 = silence ! 9"
  define rest where "rest = drop 10 silence"
  have split: "silence = s9 @ x10 # rest"
    unfolding s9_def x10_def rest_def using len by (rule split_at_tenth)
  have l9: "length s9 = 9" using len by (simp add: s9_def)
  have lrest: "length rest = length silence - 10" by (simp add: rest_def)
  have si9: "\<forall>x \<in> set s9. \<not> detect_speech x default_threshold"
    using si split by (metis Un_iff set_append)
  have si10: "\<not> detect_speech x10 default_threshold"
    using si split by (metis in_set_conv_decomp)
  have sirest: "\<forall>x \<in> set rest. \<not> detect_speech x default_threshold"
    using si split by (metis Un_iff list.set_intros(2) set_append)
  define cS where "cS = k0\<lparr>buffer := buffer k0 @ concat speech, silence_frames := 0,
      is_speaking := True, current_utterance := concat speech\<rparr>"
  have hS: "map has_translation (feed self tg sl ip vm c speech) = replicate (length speech) False"
    using sp by (rule feed_speech)
  have cSeq: "feed_context self tg sl ip vm c speech = Some cS"
    using feed_context_speech[OF sp ne, of self tg sl ip vm c] cu0
    by (simp add: cS_def k0_def)
  define c9 where "c9 = cS\<lparr>buffer := buffer cS @ concat s9, silence_frames := 9\<rparr>"
  have open9: "map has_translation (feed self tg sl ip vm (Some cS) s9) = replicate 9 False \<and>
      feed_context self tg sl ip vm (Some cS) s9 = Some c9"
    using feed_silence_open[OF si9, of cS self tg sl ip vm] l9
    by (simp add: cS_def c9_def)
  define c10 where "c10 = c9\<lparr>buffer := buffer c9 @ x10, silence_frames := 10, is_speaking := False,
      last_translation := Some res, translations_log := translations_log k0 @ [res],
      current_utterance := []\<rparr>"
  have cu: "concat speech \<noteq> []" using ne sp by (rule concat_speech_nonempty)
  have fin: "real_time_translate self x10 (Some c9) tg sl ip vm =
      \<lparr>r_context = c10, has_translation = True, translation = Some res, r_error = None\<rparr>"
    using rtt_silence_finalize[OF si10, of "Some c9" self tg sl ip vm] cu
    by (simp add: context_or_fresh_def c9_def cS_def c10_def res_def Let_def)
  have idle: "map has_translation (feed self tg sl ip vm (Some c10) rest) = replicate (length rest) False \<and>
      feed_context self tg sl ip vm (Some c10) rest =
        Some (c10\<lparr>buffer := buffer c10 @ concat rest,
                  silence_frames := silence_frames c10 + int (length rest)\<rparr>)"
    using sirest by (rule feed_silence_idle) (simp add: c10_def)
  have feed_all: "feed self tg sl ip vm c (speech @ silence) =
      feed self tg sl ip vm c speech @ feed self tg sl ip vm (Some cS) s9 @
        \<lparr>r_context = c10, has_translation = True, translation = Some res, r_error = None\<rparr> #
        feed self tg sl ip vm (Some c10) rest"
    using cSeq open9 fin by (simp add: split feed_append Let_def)
  have ctx_all: "feed_context self tg sl ip vm c (speech @ silence) =
      feed_context self tg sl ip vm (Some c10) rest"
    using cSeq open9 fin by (simp add: split feed_context_append)
  have flags: "map has_translation (feed self tg sl ip vm c (speech @ silence)) =
      replicate (length speech + 9) False @ [True] @ replicate (length silence - 10) False"
    using hS open9 idle by (simp add: feed_all lrest replicate_add)
  have pos: "length (feed self tg sl ip vm c speech @ feed self tg sl ip vm (Some cS) s9) =
      length speech + 9"
    by (simp add: length_feed l9)
  have at: "translation (feed self tg sl ip vm c (speech @ silence) ! (length speech + 9)) = Some res"
    unfolding feed_all using pos
    by (metis append.assoc nth_append_length response.select_convs(3))
  have final: "\<exists>c'. feed_context self tg sl ip vm c (speech @ silence) = Some c'
      \<and> translations_log c' = translations_log k0 @ [res] \<and> current_utterance c' = []
      \<and> \<not> is_speaking c'"
    using idle by (simp add: ctx_all c10_def cS_def c9_def)
  show ?thesis using flags at final unfolding res_def k0_def by blast
qed

text \<open>The context after one loud and nine silent chunks, and the invariant of every reachable context.\<close>

lemma speaking_context_reachable:
  "feed_context self tg sl ip vm None (speech_chunk # replicate 9 silent_chunk) =
     Some speaking_context"
proof -
  have d1: "detect_speech speech_chunk default_threshold"
    by (simp add: detect_speech_def mean_square_def speech_chunk_def default_threshold_def)
  have d2: "\<forall>x \<in> set (replicate 9 silent_chunk). \<not> detect_speech x default_threshold"
    by (simp add: detect_speech_def mean_square_def silent_chunk_def default_threshold_def)
  define c1 where "c1 = fresh_context\<lparr>buffer := speech_chunk, silence_frames := 0,
      is_speaking := True, current_utterance := speech_chunk\<rparr>"
  have s1: "real_time_translate self speech_chunk None tg sl ip vm =
      \<lparr>r_context = c1, has_translation = False, translation = None, r_error = None\<rparr>"
    using rtt_speech[OF d1, of self None tg sl ip vm]
    by (simp add: c1_def context_or_fresh_def fresh_context_def)
  have "feed_context self tg sl ip vm (Some c1) (replicate 9 silent_chunk) =
      Some (c1\<lparr>buffer := buffer c1 @ concat (replicate 9 silent_chunk),
               silence_frames := silence_frames c1 + int (length (replicate 9 silent_chunk))\<rparr>)"
    using feed_silence_open[OF d2, of c1 self tg sl ip vm] by (simp add: c1_def)
  then show ?thesis
    using s1 by (simp add: c1_def speaking_context_def fresh_context_def)
qed

lemma reachable_inv:
  "feed_context self tg sl ip vm None history = Some c \<Longrightarrow> segmenter_inv c"
  using segmenter_inv_feed[of None self tg sl ip vm history]
  by (simp add: context_or_fresh_def segmenter_inv_fresh)

lemma finalize_step:
  assumes reach: "feed_context self tg sl ip vm None history = Some c"
    and sp: "is_speaking c"
    and si: "\<not> detect_speech x default_threshold"
    and th: "silence_frames c + 1 \<ge> 10"
  shows "real_time_translate self x (Some c) tg sl ip vm =
     \<lparr>r_context = c\<lparr>buffer := buffer c @ x, silence_frames := 10, is_speaking := False,
          last_translation :=
            Some (translate_and_preserve_identity self (current_utterance c) tg sl ip vm),
          translations_log := translations_log c @
            [translate_and_preserve_identity self (current_utterance c) tg sl ip vm],
          current_utterance := []\<rparr>,
      has_translation = True,
      translation = Some (translate_and_preserve_identity self (current_utterance c) tg sl ip vm),
      r_error = None\<rparr>"
proof -
  have inv: "segmenter_inv c" using reach by (rule reachable_inv)
  have cu: "current_utterance c \<noteq> []" and lt: "silence_frames c < 10"
    using inv sp by (simp_all add: segmenter_inv_def)
  have nine: "silence_frames c + 1 = 10" using th lt by simp
  show ?thesis
    using rtt_silence_finalize[OF si, of "Some c" self tg sl ip vm] sp th cu nine
    by (simp add: context_or_fresh_def Let_def)
qed

text \<open>The field \<open>buffer\<close>: every call appends the chunk, and nothing else depends on it.\<close>

lemma buffer_step:
  "buffer (r_context (real_time_translate self x c tg sl ip vm)) = buffer (context_or_fresh c) @ x"
  by (simp add: real_time_translate_def Let_def)

lemma buffer_feed:
  "buffer (context_or_fresh (feed_context self tg sl ip vm c xs)) =
     buffer (context_or_fresh c) @ concat xs"
proof (induction xs arbitrary: c)
  case Nil
  then show ?case by simp
next
  case (Cons x xs)
  show ?case
    by (simp add: Cons.IH) (simp add: context_or_fresh_def buffer_step)
qed

lemma buffer_not_read:
  "real_time_translate self x (Some (k\<lparr>buffer := b\<rparr>)) tg sl ip vm =
     (real_time_translate self x (Some k) tg sl ip vm)
       \<lparr>r_context := (r_context (real_time_translate self x (Some k) tg sl ip vm))
                        \<lparr>buffer := b @ x\<rparr>\<rparr>"
  by (simp add: real_time_translate_def Let_def context_or_fresh_def)

lemma idle_silence_mutates:
  "\<not> detect_speech x default_threshold \<Longrightarrow> \<not> is_speaking k \<Longrightarrow>
   silence_frames (r_context (real_time_translate self x (Some k) tg sl ip vm)) =
     silence_frames k + 1"
  by (simp add: real_time_translate_def Let_def context_or_fresh_def)

section \<open>The audio I/O engine: queues, callbacks and the worker\<close>

lemma put_nowait_full:
  "0 < maxsize q \<Longrightarrow> int (length (items q)) = maxsize q \<Longrightarrow> put_nowait q x = Inl Full"
  by (simp add: put_nowait_def)

lemma put_nowait_bound:
  "0 < maxsize q \<Longrightarrow> int (length (items q)) \<le> maxsize q \<Longrightarrow> put_nowait q x = Inr q' \<Longrightarrow>
   maxsize q' = maxsize q \<and> int (length (items q')) \<le> maxsize q"
  by (auto simp add: put_nowait_def split: if_splits)

lemma get_nowait_bound:
  "get_nowait q = Inr (x, q') \<Longrightarrow>
   maxsize q' = maxsize q \<and> length (items q') \<le> length (items q)"
  by (auto simp add: get_nowait_def split: list.splits)

lemma input_callback_within:
  "0 < C \<Longrightarrow> queues_within C self \<Longrightarrow>
   queues_within C (fst (input_callback self in_data frame_count))"
  by (auto simp add: input_callback_def queues_within_def put_nowait_def split: sum.splits if_splits)

lemma output_callback_within:
  "queues_within C self \<Longrightarrow> queues_within C (fst (output_callback cfg self frame_count))"
  by (auto simp add: output_callback_def queues_within_def get_nowait_def
      split: sum.splits list.splits)

lemma handle_worker_exception_queues:
  "input_queue (fst (handle_worker_exception self ex)) = input_queue self
   \<and> output_queue (fst (handle_worker_exception self ex)) = output_queue self
   \<and> is_running (fst (handle_worker_exception self ex)) = is_running self"
  by (cases "(self, ex)" rule: handle_worker_exception.cases) simp_all

lemma handle_worker_exception_within:
  "queues_within C self \<Longrightarrow> queues_within C (fst (handle_worker_exception self ex))"
  by (simp add: queues_within_def handle_worker_exception_queues)

lemma process_audio_iteration_within:
  assumes "0 < C" and "queues_within C self"
  shows "queues_within C (fst (process_audio_iteration self))"
proof (cases "items (input_queue self)")
  case Nil
  then show ?thesis using assms by (simp add: process_audio_iteration_def get_nowait_def)
next
  case (Cons in_data rest)
  let ?self1 = "self\<lparr>input_queue := (input_queue self)\<lparr>items := rest\<rparr>\<rparr>"
  have w1: "queues_within C ?self1"
    using assms Cons by (simp add: queues_within_def)
  show ?thesis
  proof (cases "frombuffer in_data")
    case (Inl e)
    then show ?thesis using Cons w1
      by (simp add: process_audio_iteration_def get_nowait_def Let_def queues_within_def)
  next
    case (Inr audio_data)
    show ?thesis
    proof (cases "apply_processors (processors self) audio_data")
      case (Inl ex)
      then show ?thesis using Cons Inr handle_worker_exception_within[OF w1, of ex]
        by (simp add: process_audio_iteration_def get_nowait_def Let_def)
    next
      case (Inr audio_out)
      then show ?thesis using Cons \<open>frombuffer in_data = Inr audio_data\<close> w1 assms(1)
        by (auto simp add: process_audio_iteration_def get_nowait_def put_nowait_def Let_def
            queues_within_def split: if_splits)
    qed
  qed
qed

lemma io_step_within:
  "0 < C \<Longrightarrow> queues_within C self \<Longrightarrow> queues_within C (io_step cfg self e)"
  by (cases e)
     (simp_all add: input_callback_within output_callback_within process_audio_iteration_within)

lemma io_run_within:
  "0 < C \<Longrightarrow> queues_within C self \<Longrightarrow> queues_within C (io_run cfg self es)"
  by (induction es arbitrary: self) (simp_all add: io_step_within)

lemma input_callback_full:
  assumes "0 < maxsize (input_queue self)"
    and "int (length (items (input_queue self))) = maxsize (input_queue self)"
  shows "input_callback self in_data frame_count =
     (self\<lparr>log_records := log_records self @ [(WARNING, ''Input queue full, dropping frame'')]\<rparr>,
      (None, paContinue))"
  using assms by (simp add: input_callback_def put_nowait_def)

lemma input_callback_room:
  assumes "int (length (items (input_queue self))) < maxsize (input_queue self)"
  shows "input_callback self in_data frame_count =
     (self\<lparr>input_queue := (input_queue self)\<lparr>items := items (input_queue self) @ [in_data]\<rparr>\<rparr>,
      (None, paContinue))"
  using assms by (simp add: input_callback_def put_nowait_def)

text \<open>
  Captures with no consumer: the queue keeps the oldest frames up to its capacity, and
  every later frame costs one warning.
\<close>

lemma capture_only:
  assumes "0 < maxsize (input_queue self)"
    and "int (length (items (input_queue self))) \<le> maxsize (input_queue self)"
  shows "items (input_queue (io_run cfg self (map (\<lambda>f. Capture f n) frames))) =
           take (nat (maxsize (input_queue self))) (items (input_queue self) @ frames)
         \<and> maxsize (input_queue (io_run cfg self (map (\<lambda>f. Capture f n) frames))) =
             maxsize (input_queue self)
         \<and> log_records (io_run cfg self (map (\<lambda>f. Capture f n) frames)) =
             log_records self @
             replicate (length (items (input_queue self) @ frames)
                        - nat (maxsize (input_queue self)))
               (WARNING, ''Input queue full, dropping frame'')"
  using assms
proof (induction frames arbitrary: self)
  case Nil
  then show ?case by simp
next
  case (Cons f frames)
  show ?case
  proof (cases "int (length (items (input_queue self))) = maxsize (input_queue self)")
    case True
    let ?s = "self\<lparr>log_records := log_records self @ [(WARNING, ''Input queue full, dropping frame'')]\<rparr>"
    have st: "io_step cfg self (Capture f n) = ?s"
      using Cons.prems True by (simp add: input_callback_full)
    have ih: "items (input_queue (io_run cfg ?s (map (\<lambda>f. Capture f n) frames))) =
           take (nat (maxsize (input_queue ?s))) (items (input_queue ?s) @ frames)
         \<and> maxsize (input_queue (io_run cfg ?s (map (\<lambda>f. Capture f n) frames))) =
             maxsize (input_queue ?s)
         \<and> log_records (io_run cfg ?s (map (\<lambda>f. Capture f n) frames)) =
             log_records ?s @
             replicate (length (items (input_queue ?s) @ frames) - nat (maxsize (input_queue ?s)))
               (WARNING, ''Input queue full, dropping frame'')"
      using Cons.prems by (intro Cons.IH) simp_all
    have len: "length (items (input_queue self)) = nat (maxsize (input_queue self))"
      using True by simp
    show ?thesis
      using ih st len by (simp add: replicate_app_Cons_same)
  next
    case False
    then have lt: "int (length (items (input_queue self))) < maxsize (input_queue self)"
      using Cons.prems by simp
    let ?s = "self\<lparr>input_queue := (input_queue self)\<lparr>items := items (input_queue self) @ [f]\<rparr>\<rparr>"
    have st: "io_step cfg self (Capture f n) = ?s"
      using lt by (simp add: input_callback_room)
    have ih: "items (input_queue (io_run cfg ?s (map (\<lambda>f. Capture f n) frames))) =
           take (nat (maxsize (input_queue ?s))) (items (input_queue ?s) @ frames)
         \<and> maxsize (input_queue (io_run cfg ?s (map (\<lambda>f. Capture f n) frames))) =
             maxsize (input_queue ?s)
         \<and> log_records (io_run cfg ?s (map (\<lambda>f. Capture f n) frames)) =
             log_records ?s @
             replicate (length (items (input_queue ?s) @ frames) - nat (maxsize (input_queue ?s)))
               (WARNING, ''Input queue full, dropping frame'')"
      using Cons.prems lt by (intro Cons.IH) simp_all
    show ?thesis
      using ih st by simp
  qed
qed

lemma worker_output_full:
  assumes "items (input_queue self) = in_data # rest"
    and "frombuffer in_data = Inr audio_data"
    and "apply_processors (processors self) audio_data = Inr audio_out"
    and "0 < maxsize (output_queue self)"
    and "int (length (items (output_queue self))) = maxsize (output_queue self)"
  shows "process_audio_iteration self =
     (self\<lparr>input_queue := (input_queue self)\<lparr>items := rest\<rparr>,
           log_records := log_records self @ [(WARNING, ''Output queue full, dropping frame'')]\<rparr>,
      None)"
  using assms by (simp add: process_audio_iteration_def get_nowait_def put_nowait_def Let_def)

lemma worker_processor_raises:
  assumes "items (input_queue self) = in_data # rest"
    and "frombuffer in_data = Inr audio_data"
    and "apply_processors (processors self) audio_data = Inl ex"
  shows "process_audio_iteration self =
     handle_worker_exception (self\<lparr>input_queue := (input_queue self)\<lparr>items := rest\<rparr>\<rparr>) ex"
  using assms by (simp add: process_audio_iteration_def get_nowait_def Let_def)

lemma worker_forwards:
  assumes "items (input_queue self) = in_data # rest"
    and "frombuffer in_data = Inr audio_data"
    and "apply_processors (processors self) audio_data = Inr audio_out"
    and "int (length (items (output_queue self))) < maxsize (output_queue self)"
  shows "process_audio_iteration self =
     (self\<lparr>input_queue := (input_queue self)\<lparr>items := rest\<rparr>,
           output_queue := (output_queue self)\<lparr>items := items (output_queue self) @ [tobytes audio_out]\<rparr>\<rparr>,
      None)"
  using assms by (simp add: process_audio_iteration_def get_nowait_def put_nowait_def Let_def)

lemma apply_processors_append:
  "apply_processors (ps1 @ ps2) a =
     (case apply_processors ps1 a of Inl e \<Rightarrow> Inl e | Inr a' \<Rightarrow> apply_processors ps2 a')"
  by (induction ps1 arbitrary: a) (simp_all split: sum.splits)

lemma queues_within_init: "queues_within 100 audio_io_init"
  by (simp add: queues_within_def audio_io_init_def)

lemma format_float32: "get_pyaudio_format ''float32'' = paFloat32"
  by (simp add: get_pyaudio_format_def lower_char_def)

lemma format_int16: "get_pyaudio_format ''int16'' = paInt16"
  by (simp add: get_pyaudio_format_def lower_char_def)

lemma frombuffer_two_sample_frame: "frombuffer two_sample_frame = Inr [1, 2]"
  by (simp add: two_sample_frame_def word_cat_eq)

lemma raising_engine_captured:
  "fst (input_callback raising_engine two_sample_frame 2) =
     raising_engine\<lparr>input_queue := \<lparr>maxsize = 100, items = [two_sample_frame]\<rparr>\<rparr>"
  by (simp add: input_callback_def put_nowait_def raising_engine_def add_processor_def
      audio_io_init_def)

lemma exiting_engine_captured:
  "fst (input_callback exiting_engine two_sample_frame 2) =
     exiting_engine\<lparr>input_queue := \<lparr>maxsize = 100, items = [two_sample_frame]\<rparr>\<rparr>"
  by (simp add: input_callback_def put_nowait_def exiting_engine_def add_processor_def
      audio_io_init_def)

section \<open>The preview job queue: status updates\<close>






lemma process_audio_raises:
  "noise_suppressor_process env (Some a) = Inl e \<Longrightarrow> process_audio env a target True identity = None"
  by (simp add: process_audio_def)

section \<open>The processing thread and the mock signal\<close>

text \<open>With the flag cleared, the mock loop is left before its body runs once.\<close>

lemma mock_loop_flag_clear:
  "\<not> ap_running self \<Longrightarrow>
   mock_loop env chunks fuel chunk_index self =
     Returned (self\<lparr>ap_running := False,
                    ap_log := ap_log self @ [(INFO, ''Mock audio processing stopped'')]\<rparr>)"
  by (subst mock_loop.simps) (simp add: Let_def)

lemma run_mock_flag_clear:
  assumes "\<not> ap_running self"
  shows "\<exists>self'. run_mock_processing_loop env fuel self = Returned self'
           \<and> process_calls self' = process_calls self \<and> \<not> ap_running self'"
proof (cases "ap_buffer_size self = 0")
  case True
  then show ?thesis by (simp add: run_mock_processing_loop_def Let_def)
next
  case False
  let ?s0 = "self\<lparr>ap_log := ap_log self @
                     [(INFO, ''Starting mock audio processing (simulation mode)'')]\<rparr>"
  have "\<not> ap_running ?s0" using assms by simp
  then show ?thesis
    using False mock_loop_flag_clear[of ?s0 env _ fuel 0]
    by (simp add: run_mock_processing_loop_def Let_def)
qed

lemma on_loop_exception_no_frame:
  "\<exists>self'. on_loop_exception env fuel self e = Returned self'
           \<and> process_calls self' = process_calls self \<and> \<not> ap_running self'"
proof -
  let ?s2 = "self\<lparr>ap_log := ap_log self @ [(ERROR, ''Error in audio processing loop: '' @ e)],
                  ap_running := False\<rparr>"
  have "\<not> ap_running ?s2" by simp
  from run_mock_flag_clear[OF this, of env fuel]
  show ?thesis by (simp add: on_loop_exception_def Let_def)
qed

lemma finally_cleanup_returned:
  "r = Returned self' \<Longrightarrow>
   \<exists>self''. finally_cleanup r = Returned self'' \<and> process_calls self'' = process_calls self'
       \<and> ap_running self'' = ap_running self'"
  by simp

lemma no_devices_names:
  "get_input_device no_devices = Some ''Dexent Virtual Input''"
  "get_output_device no_devices = Some ''Dexent Virtual Output''"
  by (simp_all add: get_input_device_def get_output_device_def no_devices_def query_device_def
      Let_def)

text \<open>
  With the flag set, chunks to replay, a \<open>process_audio\<close> that returns and nobody
  calling \<open>stop\<close>, the mock loop runs its body as often as the fuel allows and hands
  the chunks to \<open>process_audio\<close> cyclically.
\<close>

lemma mock_loop_keeps_processing:
  assumes "chunks \<noteq> []" and "\<forall>c. \<exists>d. process_fn env c = Inr d"
    and "\<forall>k. \<not> stop_requested env k" and "ap_running self"
  shows "\<exists>self'. mock_loop env chunks fuel chunk_index self = StillRunning self'
           \<and> process_calls self' =
               process_calls self @
               map (\<lambda>i. chunks ! (i mod length chunks)) [chunk_index..<chunk_index + fuel]
           \<and> ap_running self'"
  using assms
proof (induction fuel arbitrary: chunk_index self)
  case 0
  then show ?case by (subst mock_loop.simps) (simp add: Let_def)
next
  case (Suc n)
  let ?c = "chunks ! (chunk_index mod length chunks)"
  let ?s2 = "self\<lparr>process_calls := process_calls self @ [?c]\<rparr>"
  let ?s3 = "(if chunk_index mod 10 = 0
              then ?s2\<lparr>ap_log := ap_log ?s2 @ [(INFO, ''Processed mock audio chunk'')]\<rparr>
              else ?s2)"
  obtain d where d: "process_fn env ?c = Inr d" using Suc.prems(2) by blast
  have step: "mock_loop env chunks (Suc n) chunk_index self =
      mock_loop env chunks n (Suc chunk_index) ?s3"
    using Suc.prems d by (subst mock_loop.simps) (simp add: Let_def)
  have run3: "ap_running ?s3" using Suc.prems(4) by simp
  have pc3: "process_calls ?s3 = process_calls self @ [?c]" by simp
  from Suc.IH[OF Suc.prems(1) Suc.prems(2) Suc.prems(3) run3, of "Suc chunk_index"]
  obtain self' where r: "mock_loop env chunks n (Suc chunk_index) ?s3 = StillRunning self'"
    and pc: "process_calls self' = process_calls ?s3 @
               map (\<lambda>i. chunks ! (i mod length chunks)) [Suc chunk_index..<Suc chunk_index + n]"
    and ru: "ap_running self'" by blast
  have "[chunk_index..<chunk_index + Suc n] = chunk_index # [Suc chunk_index..<Suc chunk_index + n]"
    by (simp add: upt_conv_Cons)
  then have "process_calls self' = process_calls self @
               map (\<lambda>i. chunks ! (i mod length chunks)) [chunk_index..<chunk_index + Suc n]"
    using pc pc3 by simp
  then show ?case using step r ru by simp
qed

text \<open>The mock signal and its slicing into chunks.\<close>

lemma mock_audio_cong:
  "\<forall>i < 3 * sr. n1 i = n2 i \<Longrightarrow> mock_audio fa sr n1 = mock_audio fa sr n2"
  by (simp add: mock_audio_def Let_def)

lemma length_mock_audio: "length (mock_audio fa sr n) = 3 * sr"
  by (simp add: mock_audio_def Let_def)

lemma nth_mock_audio_exact:
  "i < 3 * sr \<Longrightarrow>
   mock_audio exact_arith sr n ! i =
     3 / 10 * sin (2 * pi * 440 * (real i / real sr)) + 5 / 100 * n i"
proof -
  assume lt: "i < 3 * sr"
  have t: "real i * (3 / real (3 * sr)) = real i / real sr" by simp
  have "mock_audio exact_arith sr n ! i =
      3 / 10 * sin (2 * pi * 440 * (real i * (3 / real (3 * sr)))) + 5 / 100 * n i"
    using lt by (simp add: mock_audio_def exact_arith_def Let_def del: of_nat_mult)
  then show ?thesis by (simp only: t)
qed

lemma concat_slice_chunks: "0 < b \<Longrightarrow> concat (slice_chunks b xs) = xs"
proof (induction b xs rule: slice_chunks.induct)
  case (1 chunk_size xs)
  show ?case
  proof (cases "xs = []")
    case True
    then show ?thesis by (subst slice_chunks.simps) simp
  next
    case False
    then have "concat (slice_chunks chunk_size (drop chunk_size xs)) = drop chunk_size xs"
      using "1.IH" "1.prems" by simp
    then show ?thesis using False "1.prems" by (subst slice_chunks.simps) simp
  qed
qed

lemma slice_chunks_eq_iff:
  assumes "0 < b"
  shows "slice_chunks b xs = slice_chunks b ys \<longleftrightarrow> xs = ys"
  using assms by (metis concat_slice_chunks)

lemma slice_chunks_nonempty: "0 < b \<Longrightarrow> xs \<noteq> [] \<Longrightarrow> slice_chunks b xs \<noteq> []"
  by (subst slice_chunks.simps) simp

text \<open>
  When a resolved device name is missing or empty, the thread enters the mock loop with the
  flag still set and keeps processing chunks.
\<close>

lemma mock_mode_without_device_name:
  assumes dev: "falsy (get_input_device (sound env)) \<or> falsy (get_output_device (sound env))"
    and sr: "0 < ap_sample_rate self" and bs: "0 < ap_buffer_size self"
    and ok: "\<forall>c. \<exists>d. process_fn env c = Inr d"
    and ns: "\<forall>k. \<not> stop_requested env k" and run: "ap_running self"
  shows "\<exists>self'. processing_loop env fuel self = StillRunning self'
           \<and> length (process_calls self') = length (process_calls self) + fuel
           \<and> ap_running self'"
proof -
  let ?se = "self\<lparr>ap_log := ap_log self @
                  [(ERROR, ''No audio devices available - using mock devices for testing'')]\<rparr>"
  let ?st = "?se\<lparr>ap_log := ap_log ?se @
                     [(INFO, ''Starting mock audio processing (simulation mode)'')]\<rparr>"
  let ?chunks = "slice_chunks (ap_buffer_size self)
      (mock_audio (arith env) (ap_sample_rate self) (noise_drawn env))"
  have "length (mock_audio (arith env) (ap_sample_rate self) (noise_drawn env)) =
      3 * ap_sample_rate self"
    by (rule length_mock_audio)
  then have "mock_audio (arith env) (ap_sample_rate self) (noise_drawn env) \<noteq> []"
    using sr by auto
  with bs have ne: "?chunks \<noteq> []" by (rule slice_chunks_nonempty)
  have r0: "ap_running ?st" using run by simp
  from mock_loop_keeps_processing[OF ne ok ns r0, of fuel 0]
  obtain self' where m: "mock_loop env ?chunks fuel 0 ?st = StillRunning self'"
    and pc: "process_calls self' = process_calls ?st @
               map (\<lambda>i. ?chunks ! (i mod length ?chunks)) [0..<0 + fuel]"
    and ru: "ap_running self'" by blast
  have rm: "run_mock_processing_loop env fuel ?se = StillRunning self'"
    using m bs by (simp add: run_mock_processing_loop_def Let_def)
  have "processing_loop env fuel self = finally_cleanup (run_mock_processing_loop env fuel ?se)"
    using dev unfolding processing_loop_def Let_def by (simp only: if_True)
  then have "processing_loop env fuel self = StillRunning self'"
    by (simp add: rm)
  moreover have "length (process_calls self') = length (process_calls self) + fuel"
    using pc by simp
  ultimately show ?thesis using ru by blast
qed

section \<open>The claims of the specification\<close>

text \<open>
  Claim C1. The queues of an engine have capacity 100. For queues of any positive capacity
  \<open>C\<close> that hold at most \<open>C\<close> frames: after any sequence of captures, playback
  requests and worker passes both queues still hold at most \<open>C\<close> frames; captures with
  no consumer keep exactly the oldest frames up to the capacity and log one warning for each
  frame beyond it; a capture on a full input queue, and the worker's put on a full output
  queue, leave the queue as it was, log a warning and return normally.
\<close>

theorem frame_queue_bounded:
  assumes pos: "0 < C" and within: "queues_within C self"
  shows "queues_within 100 audio_io_init
    \<and> queues_within C (io_run cfg self events)
    \<and> items (input_queue (io_run cfg self (map (\<lambda>f. Capture f n) frames))) =
        take (nat C) (items (input_queue self) @ frames)
    \<and> log_records (io_run cfg self (map (\<lambda>f. Capture f n) frames)) =
        log_records self @
        replicate (length (items (input_queue self) @ frames) - nat C)
          (WARNING, ''Input queue full, dropping frame'')
    \<and> (int (length (items (input_queue self))) = C \<longrightarrow>
         input_callback self in_data n =
           (self\<lparr>log_records := log_records self @
                    [(WARNING, ''Input queue full, dropping frame'')]\<rparr>,
            (None, paContinue)))
    \<and> (items (input_queue self) = in_data # rest \<and> frombuffer in_data = Inr audio_data
        \<and> apply_processors (processors self) audio_data = Inr audio_out
        \<and> int (length (items (output_queue self))) = C \<longrightarrow>
         process_audio_iteration self =
           (self\<lparr>input_queue := (input_queue self)\<lparr>items := rest\<rparr>,
                 log_records := log_records self @
                   [(WARNING, ''Output queue full, dropping frame'')]\<rparr>,
            None))"
proof -
  have mi: "maxsize (input_queue self) = C" and mo: "maxsize (output_queue self) = C"
    and li: "int (length (items (input_queue self))) \<le> C"
    using within by (simp_all add: queues_within_def)
  have a: "queues_within C (io_run cfg self events)"
    using pos within by (rule io_run_within)
  note co = capture_only[of self cfg n frames, unfolded mi, OF pos li]
  have d: "int (length (items (input_queue self))) = C \<longrightarrow>
         input_callback self in_data n =
           (self\<lparr>log_records := log_records self @
                    [(WARNING, ''Input queue full, dropping frame'')]\<rparr>,
            (None, paContinue))"
    using input_callback_full[of self in_data n] pos mi by simp
  have e: "items (input_queue self) = in_data # rest \<and> frombuffer in_data = Inr audio_data
        \<and> apply_processors (processors self) audio_data = Inr audio_out
        \<and> int (length (items (output_queue self))) = C \<longrightarrow>
         process_audio_iteration self =
           (self\<lparr>input_queue := (input_queue self)\<lparr>items := rest\<rparr>,
                 log_records := log_records self @
                   [(WARNING, ''Output queue full, dropping frame'')]\<rparr>,
            None)"
    using worker_output_full[of self in_data rest audio_data audio_out] pos mo by simp
  show ?thesis
    using queues_within_init a co d e by blast
qed

theorem frame_queue_bounded_witness:
  "(0::int) < 100 \<and> queues_within 100 audio_io_init \<and> queues_within 100 congested_engine
   \<and> queues_within 100
        (io_run int16_config audio_io_init [Capture two_sample_frame 2, Worker, Playback 2])
   \<and> items (input_queue (io_run int16_config audio_io_init
        (map (\<lambda>f. Capture f 2) (replicate 101 two_sample_frame)))) =
       replicate 100 two_sample_frame
   \<and> log_records (io_run int16_config audio_io_init
        (map (\<lambda>f. Capture f 2) (replicate 101 two_sample_frame))) =
       [(INFO, ''AudioIO initialized''), (WARNING, ''Input queue full, dropping frame'')]
   \<and> int (length (items (input_queue congested_engine))) = 100
   \<and> input_queue (fst (input_callback congested_engine two_sample_frame 2)) =
       input_queue congested_engine
   \<and> snd (input_callback congested_engine two_sample_frame 2) = (None, paContinue)
   \<and> int (length (items (output_queue congested_engine))) = 100
   \<and> output_queue (fst (process_audio_iteration congested_engine)) =
       output_queue congested_engine
   \<and> snd (process_audio_iteration congested_engine) = None
   \<and> log_records (fst (process_audio_iteration congested_engine)) =
       [(INFO, ''AudioIO initialized''), (WARNING, ''Output queue full, dropping frame'')]"
proof -
  have p: "(0::int) < 100" by simp
  have w1: "queues_within 100 audio_io_init" by (rule queues_within_init)
  have w2: "queues_within 100 congested_engine"
    by (simp add: queues_within_def congested_engine_def audio_io_init_def)
  note t1 = frame_queue_bounded[OF p w1, where cfg=int16_config
      and events="[Capture two_sample_frame 2, Worker, Playback 2]" and n=2
      and frames="replicate 101 two_sample_frame"]
  have i0: "items (input_queue audio_io_init) = []" "log_records audio_io_init = [(INFO, ''AudioIO initialized'')]"
    by (simp_all add: audio_io_init_def)
  have c1: "queues_within 100
        (io_run int16_config audio_io_init [Capture two_sample_frame 2, Worker, Playback 2])"
    using t1 by blast
  have c2: "items (input_queue (io_run int16_config audio_io_init
        (map (\<lambda>f. Capture f 2) (replicate 101 two_sample_frame)))) =
       replicate 100 two_sample_frame"
    using t1 by (simp add: i0)
  have c3: "log_records (io_run int16_config audio_io_init
        (map (\<lambda>f. Capture f 2) (replicate 101 two_sample_frame))) =
       [(INFO, ''AudioIO initialized''), (WARNING, ''Input queue full, dropping frame'')]"
    using t1 by (simp add: i0)
  have fi: "int (length (items (input_queue congested_engine))) = 100"
    and fo: "int (length (items (output_queue congested_engine))) = 100"
    by (simp_all add: congested_engine_def)
  have hd: "items (input_queue congested_engine) = two_sample_frame # replicate 99 two_sample_frame"
    by (simp add: congested_engine_def replicate_Suc[symmetric] del: replicate.simps)
  have pr: "apply_processors (processors congested_engine) [1, 2] = Inr [1, 2]"
    by (simp add: congested_engine_def audio_io_init_def)
  note t2 = frame_queue_bounded[OF p w2, where in_data=two_sample_frame and n=2
      and rest="replicate 99 two_sample_frame" and audio_data="[1, 2]" and audio_out="[1, 2]"]
  have c4: "input_callback congested_engine two_sample_frame 2 =
           (congested_engine\<lparr>log_records := log_records congested_engine @
                    [(WARNING, ''Input queue full, dropping frame'')]\<rparr>,
            (None, paContinue))"
    using t2 fi by blast
  have c5: "process_audio_iteration congested_engine =
           (congested_engine\<lparr>input_queue := (input_queue congested_engine)\<lparr>items := replicate 99 two_sample_frame\<rparr>,
                 log_records := log_records congested_engine @
                   [(WARNING, ''Output queue full, dropping frame'')]\<rparr>,
            None)"
    using t2 hd frombuffer_two_sample_frame pr fo by blast
  have lg: "log_records congested_engine = [(INFO, ''AudioIO initialized'')]"
    by (simp add: congested_engine_def audio_io_init_def)
  show ?thesis
    using p w1 w2 c1 c2 c3 fi fo by (simp add: c4 c5 lg)
qed

text \<open>
  Claim C2 (amended). When the worker has taken a frame from the input queue and a processor
  of the chain raises on it, the frame is not forwarded: it has left the input queue and
  nothing is put on the output queue. What else happens is decided by the handler the
  exception reaches. An exception derived from \<open>Exception\<close>, other than
  \<open>queue.Empty\<close>, is logged as an error and the worker goes on. A \<open>queue.Empty\<close>
  raised by a processor is taken for an empty input queue: nothing is logged and the worker
  goes on. An exception outside \<open>Exception\<close> is not caught, is not logged and leaves
  the loop. The running flag is unchanged in every case.
\<close>

theorem processor_failure_drops_frame:
  assumes inp: "items (input_queue self) = in_data # rest"
    and buf: "frombuffer in_data = Inr audio_data"
    and chain: "processors self = ps1 @ p # ps2"
    and before: "apply_processors ps1 audio_data = Inr audio_mid"
    and raises: "p audio_mid = Inl ex"
  shows "items (input_queue (fst (process_audio_iteration self))) = rest
    \<and> output_queue (fst (process_audio_iteration self)) = output_queue self
    \<and> is_running (fst (process_audio_iteration self)) = is_running self
    \<and> log_records (fst (process_audio_iteration self)) =
        (case ex of
           RaisedQueue Empty \<Rightarrow> log_records self
         | RaisedQueue Full \<Rightarrow>
             log_records self @ [(ERROR, ''Error processing audio: '')]
         | RaisedException e \<Rightarrow>
             log_records self @ [(ERROR, ''Error processing audio: '' @ e)]
         | RaisedBaseException e \<Rightarrow> log_records self)
    \<and> snd (process_audio_iteration self) =
        (case ex of
           RaisedQueue qe \<Rightarrow> None
         | RaisedException e \<Rightarrow> None
         | RaisedBaseException e \<Rightarrow> Some (RaisedBaseException e))"
proof -
  let ?self1 = "self\<lparr>input_queue := (input_queue self)\<lparr>items := rest\<rparr>\<rparr>"
  have "apply_processors (processors self) audio_data = Inl ex"
    using chain before raises by (simp add: apply_processors_append)
  then have it: "process_audio_iteration self = handle_worker_exception ?self1 ex"
    using inp buf by (rule worker_processor_raises[rotated 2])
  have q: "input_queue (fst (handle_worker_exception ?self1 ex)) = input_queue ?self1"
    "output_queue (fst (handle_worker_exception ?self1 ex)) = output_queue ?self1"
    "is_running (fst (handle_worker_exception ?self1 ex)) = is_running ?self1"
    using handle_worker_exception_queues[of ?self1 ex] by simp_all
  have l: "log_records (fst (handle_worker_exception ?self1 ex)) =
        (case ex of
           RaisedQueue Empty \<Rightarrow> log_records self
         | RaisedQueue Full \<Rightarrow>
             log_records self @ [(ERROR, ''Error processing audio: '')]
         | RaisedException e \<Rightarrow>
             log_records self @ [(ERROR, ''Error processing audio: '' @ e)]
         | RaisedBaseException e \<Rightarrow> log_records self)"
    by (cases "(?self1, ex)" rule: handle_worker_exception.cases) simp_all
  have r: "snd (handle_worker_exception ?self1 ex) =
        (case ex of
           RaisedQueue qe \<Rightarrow> None
         | RaisedException e \<Rightarrow> None
         | RaisedBaseException e \<Rightarrow> Some (RaisedBaseException e))"
    by (cases "(?self1, ex)" rule: handle_worker_exception.cases) simp_all
  show ?thesis
    unfolding it using q l r by simp
qed

theorem processor_failure_drops_frame_witness:
  "items (input_queue (fst (input_callback raising_engine two_sample_frame 2))) =
     two_sample_frame # []
   \<and> frombuffer two_sample_frame = Inr [1, 2]
   \<and> processors (fst (input_callback raising_engine two_sample_frame 2)) =
       [] @ raising_processor # []
   \<and> apply_processors [] [1, 2] = Inr [1, 2]
   \<and> raising_processor [1, 2] = Inl (RaisedException ''division by zero'')
   \<and> items (input_queue (fst (process_audio_iteration
        (fst (input_callback raising_engine two_sample_frame 2))))) = []
   \<and> output_queue (fst (process_audio_iteration
        (fst (input_callback raising_engine two_sample_frame 2)))) =
       \<lparr>maxsize = 100, items = []\<rparr>
   \<and> log_records (fst (process_audio_iteration
        (fst (input_callback raising_engine two_sample_frame 2)))) =
       [(INFO, ''AudioIO initialized''), (INFO, ''Added audio processor: raising_processor''),
        (ERROR, ''Error processing audio: division by zero'')]
   \<and> snd (process_audio_iteration
        (fst (input_callback raising_engine two_sample_frame 2))) = None
   \<and> exiting_processor [1, 2] = Inl (RaisedBaseException ''SystemExit'')
   \<and> output_queue (fst (process_audio_iteration
        (fst (input_callback exiting_engine two_sample_frame 2)))) =
       \<lparr>maxsize = 100, items = []\<rparr>
   \<and> log_records (fst (process_audio_iteration
        (fst (input_callback exiting_engine two_sample_frame 2)))) =
       [(INFO, ''AudioIO initialized''), (INFO, ''Added audio processor: exiting_processor'')]
   \<and> snd (process_audio_iteration
        (fst (input_callback exiting_engine two_sample_frame 2))) =
       Some (RaisedBaseException ''SystemExit'')"
proof -
  let ?e = "fst (input_callback raising_engine two_sample_frame 2)"
  have h1: "items (input_queue ?e) = two_sample_frame # []"
    by (simp add: raising_engine_captured)
  have h3: "processors ?e = [] @ raising_processor # []"
    by (simp add: raising_engine_captured)
       (simp add: raising_engine_def add_processor_def audio_io_init_def)
  have h4: "apply_processors [] [1, 2] = Inr [1, 2]" by simp
  have h5: "raising_processor [1, 2] = Inl (RaisedException ''division by zero'')"
    by (simp add: raising_processor_def)
  note t = processor_failure_drops_frame[OF h1 frombuffer_two_sample_frame h3 h4 h5]
  have o: "output_queue ?e = \<lparr>maxsize = 100, items = []\<rparr>"
    by (simp add: raising_engine_captured)
       (simp add: raising_engine_def add_processor_def audio_io_init_def)
  have l: "log_records ?e = [(INFO, ''AudioIO initialized''),
      (INFO, ''Added audio processor: raising_processor'')]"
    by (simp add: raising_engine_captured)
       (simp add: raising_engine_def add_processor_def audio_io_init_def)
  have c0: "items (input_queue (fst (process_audio_iteration ?e))) = []"
    using t by simp
  have c1: "output_queue (fst (process_audio_iteration ?e)) = \<lparr>maxsize = 100, items = []\<rparr>"
    using t o by simp
  have c2: "log_records (fst (process_audio_iteration ?e)) =
       [(INFO, ''AudioIO initialized''), (INFO, ''Added audio processor: raising_processor''),
        (ERROR, ''Error processing audio: division by zero'')]"
    using t l by simp
  have c3: "snd (process_audio_iteration ?e) = None"
    using t by simp
  let ?x = "fst (input_callback exiting_engine two_sample_frame 2)"
  have x1: "items (input_queue ?x) = two_sample_frame # []"
    by (simp add: exiting_engine_captured)
  have x3: "processors ?x = [] @ exiting_processor # []"
    by (simp add: exiting_engine_captured)
       (simp add: exiting_engine_def add_processor_def audio_io_init_def)
  have x5: "exiting_processor [1, 2] = Inl (RaisedBaseException ''SystemExit'')"
    by (simp add: exiting_processor_def)
  note u = processor_failure_drops_frame[OF x1 frombuffer_two_sample_frame x3 h4 x5]
  have xo: "output_queue ?x = \<lparr>maxsize = 100, items = []\<rparr>"
    by (simp add: exiting_engine_captured)
       (simp add: exiting_engine_def add_processor_def audio_io_init_def)
  have xl: "log_records ?x = [(INFO, ''AudioIO initialized''),
      (INFO, ''Added audio processor: exiting_processor'')]"
    by (simp add: exiting_engine_captured)
       (simp add: exiting_engine_def add_processor_def audio_io_init_def)
  have d1: "output_queue (fst (process_audio_iteration ?x)) = \<lparr>maxsize = 100, items = []\<rparr>"
    using u xo by simp
  have d2: "log_records (fst (process_audio_iteration ?x)) =
       [(INFO, ''AudioIO initialized''), (INFO, ''Added audio processor: exiting_processor'')]"
    using u xl by simp
  have d3: "snd (process_audio_iteration ?x) = Some (RaisedBaseException ''SystemExit'')"
    using u by simp
  show ?thesis
    using h1 frombuffer_two_sample_frame h3 h4 h5 c0 c1 c2 c3 x5 d1 d2 d3 by (intro conjI)
qed

text \<open>
  The claim as stated fails. With a chain whose only processor raises an ordinary exception,
  a captured frame is taken by the worker and the output queue stays empty: the frame is
  not forwarded. With a processor that raises \<open>queue.Empty\<close> the frame is lost in the
  same way, and the log is as it was before the frame arrived.
\<close>

theorem failed_frame_not_forwarded_counterexample:
  "items (input_queue (io_run int16_config raising_engine [Capture two_sample_frame 2])) =
     [two_sample_frame]
   \<and> processors raising_engine = [raising_processor]
   \<and> raising_processor [1, 2] = Inl (RaisedException ''division by zero'')
   \<and> frombuffer two_sample_frame = Inr [1, 2]
   \<and> items (input_queue (io_run int16_config raising_engine
        [Capture two_sample_frame 2, Worker])) = []
   \<and> items (output_queue (io_run int16_config raising_engine
        [Capture two_sample_frame 2, Worker])) = []
   \<and> items (output_queue (io_run int16_config raising_engine
        [Capture two_sample_frame 2, Worker])) \<noteq> [two_sample_frame]
   \<and> processors empty_raising_engine = [empty_raising_processor]
   \<and> empty_raising_processor [1, 2] = Inl (RaisedQueue Empty)
   \<and> items (input_queue (io_run int16_config empty_raising_engine
        [Capture two_sample_frame 2, Worker])) = []
   \<and> items (output_queue (io_run int16_config empty_raising_engine
        [Capture two_sample_frame 2, Worker])) = []
   \<and> log_records (io_run int16_config empty_raising_engine
        [Capture two_sample_frame 2, Worker]) = log_records empty_raising_engine"
proof -
  have p: "processors raising_engine = [raising_processor]"
    by (simp add: raising_engine_def add_processor_def audio_io_init_def)
  have h5: "raising_processor [1, 2] = Inl (RaisedException ''division by zero'')"
    by (simp add: raising_processor_def)
  have w: "process_audio_iteration
      (raising_engine\<lparr>input_queue := \<lparr>maxsize = 100, items = [two_sample_frame]\<rparr>\<rparr>) =
      (raising_engine\<lparr>input_queue := \<lparr>maxsize = 100, items = []\<rparr>,
         log_records := log_records raising_engine @
           [(ERROR, ''Error processing audio: division by zero'')]\<rparr>,
       None)"
    by (simp add: process_audio_iteration_def get_nowait_def Let_def
        frombuffer_two_sample_frame p h5)
  have o: "items (output_queue raising_engine) = []"
    by (simp add: raising_engine_def add_processor_def audio_io_init_def)
  have first: "items (input_queue (io_run int16_config raising_engine
        [Capture two_sample_frame 2])) = [two_sample_frame]
   \<and> items (input_queue (io_run int16_config raising_engine
        [Capture two_sample_frame 2, Worker])) = []
   \<and> items (output_queue (io_run int16_config raising_engine
        [Capture two_sample_frame 2, Worker])) = []
   \<and> items (output_queue (io_run int16_config raising_engine
        [Capture two_sample_frame 2, Worker])) \<noteq> [two_sample_frame]"
    by (simp add: raising_engine_captured w o)
  have p': "processors empty_raising_engine = [empty_raising_processor]"
    by (simp add: empty_raising_engine_def add_processor_def audio_io_init_def)
  have h5': "empty_raising_processor [1, 2] = Inl (RaisedQueue Empty)"
    by (simp add: empty_raising_processor_def)
  have cap': "fst (input_callback empty_raising_engine two_sample_frame 2) =
      empty_raising_engine\<lparr>input_queue := \<lparr>maxsize = 100, items = [two_sample_frame]\<rparr>\<rparr>"
    by (simp add: input_callback_def put_nowait_def empty_raising_engine_def add_processor_def
        audio_io_init_def)
  have w': "process_audio_iteration
      (empty_raising_engine\<lparr>input_queue := \<lparr>maxsize = 100, items = [two_sample_frame]\<rparr>\<rparr>) =
      (empty_raising_engine\<lparr>input_queue := \<lparr>maxsize = 100, items = []\<rparr>\<rparr>, None)"
    by (simp add: process_audio_iteration_def get_nowait_def Let_def
        frombuffer_two_sample_frame p' h5')
  have o': "items (output_queue empty_raising_engine) = []"
    by (simp add: empty_raising_engine_def add_processor_def audio_io_init_def)
  have second: "items (input_queue (io_run int16_config empty_raising_engine
        [Capture two_sample_frame 2, Worker])) = []
   \<and> items (output_queue (io_run int16_config empty_raising_engine
        [Capture two_sample_frame 2, Worker])) = []
   \<and> log_records (io_run int16_config empty_raising_engine
        [Capture two_sample_frame 2, Worker]) = log_records empty_raising_engine"
    by (simp add: cap' w' o')
  show ?thesis
    using first p h5 frombuffer_two_sample_frame p' h5' second by simp
qed

text \<open>
  The playback callback with an empty output queue: it returns
  \<open>frame_count * CHANNELS * 2\<close> zero bytes and the flag to continue, and leaves the
  engine unchanged. This is the length the stream requested exactly when the configured
  format has two bytes per sample, or when no byte is requested at all.
\<close>

lemma silence_on_empty_output_queue:
  assumes "items (output_queue self) = []"
  shows "output_callback cfg self frame_count =
           (self, (Some (replicate (frame_count * CHANNELS cfg * 2) 0), paContinue))
    \<and> (replicate (frame_count * CHANNELS cfg * 2) (0 :: 8 word) =
          replicate (requested_length cfg frame_count) 0
        \<longleftrightarrow> get_sample_size (get_pyaudio_format (FORMAT cfg)) = 2
             \<or> frame_count * CHANNELS cfg = 0)"
proof -
  have a: "output_callback cfg self frame_count =
           (self, (Some (replicate (frame_count * CHANNELS cfg * 2) 0), paContinue))"
    using assms by (simp add: output_callback_def get_nowait_def zero_bytes_def)
  have "(frame_count * CHANNELS cfg * 2 = requested_length cfg frame_count)
        \<longleftrightarrow> (get_sample_size (get_pyaudio_format (FORMAT cfg)) = 2
             \<or> frame_count * CHANNELS cfg = 0)"
    by (auto simp add: requested_length_def)
  moreover have "(replicate (frame_count * CHANNELS cfg * 2) (0 :: 8 word) =
          replicate (requested_length cfg frame_count) 0)
        \<longleftrightarrow> (frame_count * CHANNELS cfg * 2 = requested_length cfg frame_count)"
    by (metis length_replicate)
  ultimately show ?thesis using a by simp
qed

lemma silence_full_length_int16:
  "items (output_queue audio_io_init) = []
   \<and> output_callback int16_config audio_io_init 4 =
       (audio_io_init, (Some [0, 0, 0, 0, 0, 0, 0, 0], paContinue))
   \<and> requested_length int16_config 4 = 8"
proof -
  have h: "items (output_queue audio_io_init) = []" by (simp add: audio_io_init_def)
  have c: "CHANNELS int16_config = 1" by (simp add: int16_config_def)
  have r: "requested_length int16_config 4 = 8"
    by (simp add: requested_length_def int16_config_def format_int16)
  have e: "replicate 8 (0 :: 8 word) = [0, 0, 0, 0, 0, 0, 0, 0]"
    by (simp add: eval_nat_numeral)
  show ?thesis
    using silence_on_empty_output_queue[OF h, of int16_config 4] h r
    by (simp add: c e)
qed

lemma sample_size_cases:
  "get_sample_size f = 2 \<or> get_sample_size f = 3 \<or> get_sample_size f = 4"
  by (cases f) simp_all

text \<open>
  Claim C3 fails on the code for a sample format wider than 16 bits. The streams are opened
  with the format that \<open>_get_pyaudio_format\<close> gives for \<open>FORMAT\<close>, but the silence
  returned for an empty output queue always counts two bytes a sample. For a configured
  format of three or four bytes a sample (int24, int32, float32) and a request of at least
  one sample, the callback returns fewer zero bytes than the stream requested.
\<close>

theorem silence_shorter_than_requested:
  assumes empty: "items (output_queue self) = []"
    and wide: "get_sample_size (get_pyaudio_format (FORMAT cfg)) \<noteq> 2"
    and some: "0 < frame_count * CHANNELS cfg"
  shows "output_callback cfg self frame_count =
           (self, (Some (replicate (frame_count * CHANNELS cfg * 2) 0), paContinue))
    \<and> length (replicate (frame_count * CHANNELS cfg * 2) (0 :: 8 word)) <
          requested_length cfg frame_count"
proof -
  have a: "output_callback cfg self frame_count =
           (self, (Some (replicate (frame_count * CHANNELS cfg * 2) 0), paContinue))"
    using empty by (simp add: output_callback_def get_nowait_def zero_bytes_def)
  have "2 < get_sample_size (get_pyaudio_format (FORMAT cfg))"
    using wide sample_size_cases[of "get_pyaudio_format (FORMAT cfg)"] by auto
  then have "frame_count * CHANNELS cfg * 2 <
      frame_count * CHANNELS cfg * get_sample_size (get_pyaudio_format (FORMAT cfg))"
    using some by simp
  then show ?thesis using a by (simp add: requested_length_def)
qed

theorem silence_shorter_than_requested_witness:
  "items (output_queue audio_io_init) = []
   \<and> get_pyaudio_format (FORMAT float32_config) = paFloat32
   \<and> get_sample_size (get_pyaudio_format (FORMAT float32_config)) \<noteq> 2
   \<and> 0 < 1024 * CHANNELS float32_config
   \<and> output_callback float32_config audio_io_init 1024 =
       (audio_io_init, (Some (replicate 2048 0), paContinue))
   \<and> length (replicate 2048 (0 :: 8 word)) = 2048
   \<and> requested_length float32_config 1024 = 4096"
proof -
  have h: "items (output_queue audio_io_init) = []" by (simp add: audio_io_init_def)
  have f: "get_pyaudio_format (FORMAT float32_config) = paFloat32"
    by (simp add: float32_config_def format_float32)
  have w: "get_sample_size (get_pyaudio_format (FORMAT float32_config)) \<noteq> 2"
    by (simp add: f)
  have c: "CHANNELS float32_config = 1" by (simp add: float32_config_def)
  have n: "0 < 1024 * CHANNELS float32_config" by (simp add: c)
  have r: "requested_length float32_config 1024 = 4096"
    by (simp add: requested_length_def f c)
  have o: "output_callback float32_config audio_io_init 1024 =
       (audio_io_init, (Some (replicate 2048 0), paContinue))"
    using silence_shorter_than_requested[OF h w n] by (simp add: c)
  show ?thesis using h f w n o r by simp
qed

text \<open>
  Claim C4. From a fresh context, a non-empty run of voice-active chunks followed by at
  least ten silent chunks finalizes exactly one utterance: only the response to the tenth
  silent chunk has \<open>has_translation\<close>, the collaborator receives the concatenation of
  the voice-active chunks and no silent chunk, and the log then holds that one result. This
  covers the scenario of five chunks of energy 0.5 and twelve chunks of energy 0 with the
  threshold 0.01, which is evaluated after the theorem.
\<close>

theorem segmenter_one_utterance:
  assumes ne: "speech \<noteq> []"
    and sp: "\<forall>x \<in> set speech. detect_speech x default_threshold"
    and si: "\<forall>x \<in> set silence. \<not> detect_speech x default_threshold"
    and len: "10 \<le> length silence"
  shows "map has_translation (feed self tg sl ip vm None (speech @ silence)) =
           replicate (length speech + 9) False @ [True] @ replicate (length silence - 10) False
         \<and> translation (feed self tg sl ip vm None (speech @ silence) ! (length speech + 9)) =
             Some (translate_and_preserve_identity self (concat speech) tg sl ip vm)
         \<and> (\<exists>c. feed_context self tg sl ip vm None (speech @ silence) = Some c
              \<and> translations_log c = [translate_and_preserve_identity self (concat speech) tg sl ip vm]
              \<and> current_utterance c = [] \<and> \<not> is_speaking c)"
  using utterance_from_idle[of None speech silence self tg sl ip vm] assms
  by (simp add: context_or_fresh_def fresh_context_def)

theorem segmenter_one_utterance_witness:
  "mean_square speech_chunk = Some (1 / 2) \<and> mean_square silent_chunk = Some 0
   \<and> replicate 5 speech_chunk \<noteq> []
   \<and> detect_speech speech_chunk default_threshold
   \<and> \<not> detect_speech silent_chunk default_threshold
   \<and> 10 \<le> length (replicate 12 silent_chunk)
   \<and> map has_translation (feed stub_manager ''en'' None True None None
        (replicate 5 speech_chunk @ replicate 12 silent_chunk)) =
       replicate 14 False @ [True] @ replicate 2 False
   \<and> translation (feed stub_manager ''en'' None True None None
        (replicate 5 speech_chunk @ replicate 12 silent_chunk) ! 14) =
       Some (translate_and_preserve_identity stub_manager (concat (replicate 5 speech_chunk))
               ''en'' None True None)"
proof -
  have e1: "mean_square speech_chunk = Some (1 / 2)"
    by (simp add: mean_square_def speech_chunk_def)
  have e2: "mean_square silent_chunk = Some 0"
    by (simp add: mean_square_def silent_chunk_def)
  have h1: "replicate 5 speech_chunk \<noteq> []" by simp
  have d1: "detect_speech speech_chunk default_threshold"
    by (simp add: detect_speech_def e1 default_threshold_def)
  have d2: "\<not> detect_speech silent_chunk default_threshold"
    by (simp add: detect_speech_def e2 default_threshold_def)
  have h2: "\<forall>x \<in> set (replicate 5 speech_chunk). detect_speech x default_threshold"
    using d1 by simp
  have h3: "\<forall>x \<in> set (replicate 12 silent_chunk). \<not> detect_speech x default_threshold"
    using d2 by simp
  have h4: "10 \<le> length (replicate 12 silent_chunk)" by simp
  have l1: "length (replicate 5 speech_chunk) + 9 = 14" by simp
  have l2: "length (replicate 12 silent_chunk) - 10 = 2" by simp
  note th = segmenter_one_utterance[OF h1 h2 h3 h4, of stub_manager "''en''" None True None,
      unfolded l1 l2]
  from th have c1: "map has_translation (feed stub_manager ''en'' None True None None
        (replicate 5 speech_chunk @ replicate 12 silent_chunk)) =
       replicate 14 False @ [True] @ replicate 2 False" by (rule conjunct1)
  from th have c2: "translation (feed stub_manager ''en'' None True None None
        (replicate 5 speech_chunk @ replicate 12 silent_chunk) ! 14) =
       Some (translate_and_preserve_identity stub_manager (concat (replicate 5 speech_chunk))
               ''en'' None True None)" by (rule conjunct1[OF conjunct2])
  show ?thesis
    using e1 e2 h1 d1 d2 h4 c1 c2 by (intro conjI)
qed

text \<open>
  Claim C5 (amended). In a context reached from a fresh one, when a silent chunk arrives in
  the Speaking state and brings the silence counter to the threshold of ten, that call hands
  the accumulated utterance to the collaborator, appends the result to the translation log,
  empties the utterance, returns \<open>has_translation = True\<close> and leaves the context Idle.
  The silence counter is not reset by this call: it keeps the value ten.
\<close>

theorem finalize_transition:
  assumes reach: "feed_context self tg sl ip vm None history = Some c"
    and sp: "is_speaking c"
    and si: "\<not> detect_speech x default_threshold"
    and th: "silence_frames c + 1 \<ge> 10"
  shows "(let r = real_time_translate self x (Some c) tg sl ip vm;
              res = translate_and_preserve_identity self (current_utterance c) tg sl ip vm
          in translation r = Some res
           \<and> translations_log (r_context r) = translations_log c @ [res]
           \<and> current_utterance (r_context r) = []
           \<and> silence_frames (r_context r) = 10
           \<and> has_translation r
           \<and> \<not> is_speaking (r_context r))"
  using finalize_step[OF reach sp si th] by (simp add: Let_def)

theorem finalize_transition_witness:
  "feed_context stub_manager ''en'' None True None None
       (speech_chunk # replicate 9 silent_chunk) = Some speaking_context
   \<and> is_speaking speaking_context
   \<and> \<not> detect_speech silent_chunk default_threshold
   \<and> silence_frames speaking_context + 1 \<ge> 10
   \<and> translation (real_time_translate stub_manager silent_chunk (Some speaking_context)
          ''en'' None True None) =
        Some (Translation ''hola'' None ''hello'' ''en'' (Some [0]))
   \<and> translations_log (r_context (real_time_translate stub_manager silent_chunk
          (Some speaking_context) ''en'' None True None)) =
        [Translation ''hola'' None ''hello'' ''en'' (Some [0])]
   \<and> current_utterance (r_context (real_time_translate stub_manager silent_chunk
          (Some speaking_context) ''en'' None True None)) = []
   \<and> silence_frames (r_context (real_time_translate stub_manager silent_chunk
          (Some speaking_context) ''en'' None True None)) = 10
   \<and> has_translation (real_time_translate stub_manager silent_chunk (Some speaking_context)
          ''en'' None True None)
   \<and> \<not> is_speaking (r_context (real_time_translate stub_manager silent_chunk
          (Some speaking_context) ''en'' None True None))"
proof -
  have h1: "feed_context stub_manager ''en'' None True None None
       (speech_chunk # replicate 9 silent_chunk) = Some speaking_context"
    by (rule speaking_context_reachable)
  have h2: "is_speaking speaking_context" by (simp add: speaking_context_def)
  have h3: "\<not> detect_speech silent_chunk default_threshold"
    by (simp add: detect_speech_def mean_square_def silent_chunk_def default_threshold_def)
  have h4: "silence_frames speaking_context + 1 \<ge> 10" by (simp add: speaking_context_def)
  have res: "translate_and_preserve_identity stub_manager (current_utterance speaking_context)
       ''en'' None True None = Translation ''hola'' None ''hello'' ''en'' (Some [0])"
    by (simp add: translate_and_preserve_identity_def stub_manager_def
        apply_voice_characteristics_def)
  have lg: "translations_log speaking_context = []" by (simp add: speaking_context_def)
  show ?thesis
    using finalize_transition[OF h1 h2 h3 h4] h1 h2 h3 h4
    by (simp add: Let_def res lg)
qed

text \<open>
  The claim as stated fails: after one loud and nine silent chunks, the tenth silent chunk
  finalizes the utterance and leaves the counter at ten, not at zero.
\<close>

theorem finalize_keeps_counter_counterexample:
  "feed_context stub_manager ''en'' None True None None
       (speech_chunk # replicate 9 silent_chunk) = Some speaking_context
   \<and> is_speaking speaking_context
   \<and> silence_frames speaking_context = 9
   \<and> \<not> detect_speech silent_chunk default_threshold
   \<and> has_translation (real_time_translate stub_manager silent_chunk (Some speaking_context)
          ''en'' None True None)
   \<and> silence_frames (r_context (real_time_translate stub_manager silent_chunk
          (Some speaking_context) ''en'' None True None)) \<noteq> 0"
proof -
  have h1: "feed_context stub_manager ''en'' None True None None
       (speech_chunk # replicate 9 silent_chunk) = Some speaking_context"
    by (rule speaking_context_reachable)
  have h3: "\<not> detect_speech silent_chunk default_threshold"
    by (simp add: detect_speech_def mean_square_def silent_chunk_def default_threshold_def)
  show ?thesis
    using h1 h3
    by (simp add: real_time_translate_def Let_def context_or_fresh_def speaking_context_def
        speech_chunk_def)
qed

text \<open>
  Claim C6 (amended). When the collaborator returns a dictionary with an \<open>error\<close> key at
  a finalization, the call does not fail: the response has \<open>has_translation = True\<close>,
  carries the error dictionary under \<open>translation\<close> and has no \<open>error\<close> key of its
  own; the error dictionary is appended to the translation log and stored as
  \<open>last_translation\<close> like any other result. The utterance is emptied, the context is
  Idle, and a following run of voice-active chunks and ten silent chunks is segmented into
  exactly one new utterance.
\<close>

theorem collaborator_error_logged:
  assumes reach: "feed_context self tg sl ip vm None history = Some c"
    and sp: "is_speaking c"
    and si: "\<not> detect_speech x default_threshold"
    and th: "silence_frames c + 1 \<ge> 10"
    and err: "has_error_key (translate_and_preserve_identity self (current_utterance c) tg sl ip vm)"
    and ne: "speech \<noteq> []"
    and sp': "\<forall>y \<in> set speech. detect_speech y default_threshold"
    and si': "\<forall>y \<in> set silence. \<not> detect_speech y default_threshold"
    and len: "10 \<le> length silence"
  shows "(let r = real_time_translate self x (Some c) tg sl ip vm;
              res = translate_and_preserve_identity self (current_utterance c) tg sl ip vm
          in has_translation r \<and> translation r = Some res \<and> r_error r = None
           \<and> translations_log (r_context r) = translations_log c @ [res]
           \<and> last_translation (r_context r) = Some res
           \<and> current_utterance (r_context r) = []
           \<and> \<not> is_speaking (r_context r)
           \<and> map has_translation (feed self tg sl ip vm (Some (r_context r)) (speech @ silence)) =
               replicate (length speech + 9) False @ [True] @
               replicate (length silence - 10) False
           \<and> translation (feed self tg sl ip vm (Some (r_context r)) (speech @ silence) !
                 (length speech + 9)) =
               Some (translate_and_preserve_identity self (concat speech) tg sl ip vm))"
proof -
  define r where "r = real_time_translate self x (Some c) tg sl ip vm"
  define res where "res = translate_and_preserve_identity self (current_utterance c) tg sl ip vm"
  have step: "r = \<lparr>r_context = c\<lparr>buffer := buffer c @ x, silence_frames := 10,
          is_speaking := False, last_translation := Some res,
          translations_log := translations_log c @ [res], current_utterance := []\<rparr>,
      has_translation = True, translation = Some res, r_error = None\<rparr>"
    unfolding r_def res_def using reach sp si th by (rule finalize_step)
  have idle: "\<not> is_speaking (context_or_fresh (Some (r_context r)))"
    and emp: "current_utterance (context_or_fresh (Some (r_context r))) = []"
    by (simp_all add: step context_or_fresh_def)
  note nxt = utterance_from_idle[OF idle emp ne sp' si' len, of self tg sl ip vm]
  have a: "has_translation r \<and> translation r = Some res \<and> r_error r = None
           \<and> translations_log (r_context r) = translations_log c @ [res]
           \<and> last_translation (r_context r) = Some res
           \<and> current_utterance (r_context r) = []
           \<and> \<not> is_speaking (r_context r)"
    by (simp add: step)
  show ?thesis
    using a nxt unfolding Let_def r_def[symmetric] res_def[symmetric] by blast
qed

theorem collaborator_error_logged_witness:
  "feed_context error_manager ''en'' None True None None
       (speech_chunk # replicate 9 silent_chunk) = Some speaking_context
   \<and> is_speaking speaking_context
   \<and> \<not> detect_speech silent_chunk default_threshold
   \<and> silence_frames speaking_context + 1 \<ge> 10
   \<and> has_error_key (translate_and_preserve_identity error_manager
          (current_utterance speaking_context) ''en'' None True None)
   \<and> [speech_chunk] \<noteq> []
   \<and> detect_speech speech_chunk default_threshold
   \<and> 10 \<le> length (replicate 10 silent_chunk)
   \<and> has_translation (real_time_translate error_manager silent_chunk (Some speaking_context)
          ''en'' None True None)
   \<and> translation (real_time_translate error_manager silent_chunk (Some speaking_context)
          ''en'' None True None) = Some (ErrorResult ''Whisper model not loaded'')
   \<and> translations_log (r_context (real_time_translate error_manager silent_chunk
          (Some speaking_context) ''en'' None True None)) =
        [ErrorResult ''Whisper model not loaded'']
   \<and> map has_translation (feed error_manager ''en'' None True None
          (Some (r_context (real_time_translate error_manager silent_chunk
             (Some speaking_context) ''en'' None True None)))
          ([speech_chunk] @ replicate 10 silent_chunk)) =
        replicate 10 False @ [True]"
proof -
  have h1: "feed_context error_manager ''en'' None True None None
       (speech_chunk # replicate 9 silent_chunk) = Some speaking_context"
    by (rule speaking_context_reachable)
  have h2: "is_speaking speaking_context" by (simp add: speaking_context_def)
  have h3: "\<not> detect_speech silent_chunk default_threshold"
    by (simp add: detect_speech_def mean_square_def silent_chunk_def default_threshold_def)
  have h4: "silence_frames speaking_context + 1 \<ge> 10" by (simp add: speaking_context_def)
  have res: "translate_and_preserve_identity error_manager (current_utterance speaking_context)
       ''en'' None True None = ErrorResult ''Whisper model not loaded''"
    by (simp add: translate_and_preserve_identity_def error_manager_def)
  have h5: "has_error_key (translate_and_preserve_identity error_manager
          (current_utterance speaking_context) ''en'' None True None)"
    by (simp add: res)
  have h6: "[speech_chunk] \<noteq> []" by simp
  have d1: "detect_speech speech_chunk default_threshold"
    by (simp add: detect_speech_def mean_square_def speech_chunk_def default_threshold_def)
  have h7: "\<forall>y \<in> set [speech_chunk]. detect_speech y default_threshold" using d1 by simp
  have h8: "\<forall>y \<in> set (replicate 10 silent_chunk). \<not> detect_speech y default_threshold"
    using h3 by simp
  have h9: "10 \<le> length (replicate 10 silent_chunk)" by simp
  have lg: "translations_log speaking_context = []" by (simp add: speaking_context_def)
  note th = collaborator_error_logged[OF h1 h2 h3 h4 h5 h6 h7 h8 h9, unfolded Let_def res lg]
  have l1: "length [speech_chunk] + 9 = 10" by simp
  have l2: "replicate (length (replicate 10 silent_chunk) - 10) False = []" by simp
  show ?thesis
    using th h1 h2 h3 h4 h5 h6 d1 h9 unfolding l1 l2 by simp
qed

text \<open>
  The claim as stated fails: with a collaborator that returns an error dictionary, the log
  is empty before the finalizing call and holds the error dictionary after it.
\<close>

theorem error_result_is_logged_counterexample:
  "feed_context error_manager ''en'' None True None None
       (speech_chunk # replicate 9 silent_chunk) = Some speaking_context
   \<and> \<not> detect_speech silent_chunk default_threshold
   \<and> has_error_key (translate_and_preserve_identity error_manager
          (current_utterance speaking_context) ''en'' None True None)
   \<and> translations_log speaking_context = []
   \<and> translations_log (r_context (real_time_translate error_manager silent_chunk
          (Some speaking_context) ''en'' None True None)) =
        [ErrorResult ''Whisper model not loaded'']"
proof -
  have h1: "feed_context error_manager ''en'' None True None None
       (speech_chunk # replicate 9 silent_chunk) = Some speaking_context"
    by (rule speaking_context_reachable)
  have h3: "\<not> detect_speech silent_chunk default_threshold"
    by (simp add: detect_speech_def mean_square_def silent_chunk_def default_threshold_def)
  have res: "translate_and_preserve_identity error_manager (current_utterance speaking_context)
       ''en'' None True None = ErrorResult ''Whisper model not loaded''"
    by (simp add: translate_and_preserve_identity_def error_manager_def)
  have cu: "current_utterance speaking_context = speech_chunk" "speech_chunk \<noteq> []"
    by (simp_all add: speaking_context_def speech_chunk_def)
  show ?thesis
    using h1 h3 res cu
    by (simp add: real_time_translate_def Let_def context_or_fresh_def)
       (simp add: speaking_context_def)
qed

text \<open>
  Claim C7 fails on the code when opening the stream raises. Device resolution returns a
  made-up device name when it finds no device, so the thread tries to open a stream; when
  that fails (any exception of the first attempt other than \<open>ValueError\<close>, or a
  \<open>ValueError\<close> followed by a failure of the attempt with default devices), the handler
  clears the running flag before it calls the mock loop. The mock loop then returns without
  handing a single chunk to \<open>process_audio\<close>, whatever time it is given.
\<close>

theorem stream_failure_skips_mock_loop:
  assumes "\<not> falsy (get_input_device (sound env))"
    and "\<not> falsy (get_output_device (sound env))"
    and "first_stream env = RaisesError e
         \<or> (first_stream env = RaisesValueError e \<and> fallback_stream env \<noteq> Opened)"
  shows "\<exists>self'. processing_loop env fuel self = Returned self'
           \<and> process_calls self' = process_calls self \<and> \<not> ap_running self'"
proof -
  have "\<exists>s1 e1. processing_loop env fuel self = finally_cleanup (on_loop_exception env fuel s1 e1)
          \<and> process_calls s1 = process_calls self"
  proof (cases "first_stream env")
    case Opened
    then show ?thesis using assms(3) by simp
  next
    case (RaisesError x)
    then show ?thesis using assms(1,2)
      by (intro exI[of _ self] exI[of _ x]) (simp add: processing_loop_def Let_def)
  next
    case (RaisesValueError ve)
    let ?s1 = "self\<lparr>ap_log := ap_log self @
                                  [(ERROR, ''Invalid parameters for audio stream: '' @ ve),
                                   (INFO, ''Falling back to default devices'')]\<rparr>"
    from RaisesValueError assms(3) have nf: "fallback_stream env \<noteq> Opened" by auto
    then obtain x where "fallback_stream env = RaisesValueError x \<or> fallback_stream env = RaisesError x"
      by (cases "fallback_stream env") auto
    then show ?thesis using RaisesValueError assms(1,2)
      by (intro exI[of _ ?s1] exI[of _ x]) (auto simp add: processing_loop_def Let_def)
  qed
  then obtain s1 e1 where pl: "processing_loop env fuel self =
      finally_cleanup (on_loop_exception env fuel s1 e1)"
    and pc: "process_calls s1 = process_calls self" by blast
  from on_loop_exception_no_frame[of env fuel s1 e1]
  obtain s2 where r: "on_loop_exception env fuel s1 e1 = Returned s2"
    and pc2: "process_calls s2 = process_calls s1" and nr: "\<not> ap_running s2" by blast
  show ?thesis using pl r pc pc2 nr by simp
qed

theorem stream_failure_skips_mock_loop_witness:
  "\<not> falsy (get_input_device (sound no_devices_env))
   \<and> \<not> falsy (get_output_device (sound no_devices_env))
   \<and> first_stream no_devices_env = RaisesValueError ''No input device matching Dexent Virtual Input''
   \<and> fallback_stream no_devices_env \<noteq> Opened
   \<and> ap_running (start (audio_processor_init 16000 1024))
   \<and> (\<exists>self'. processing_loop no_devices_env 1000 (start (audio_processor_init 16000 1024)) =
               Returned self'
        \<and> process_calls self' = [] \<and> \<not> ap_running self')"
proof -
  have s: "sound no_devices_env = no_devices" by (simp add: no_devices_env_def)
  have h1: "\<not> falsy (get_input_device (sound no_devices_env))"
    by (simp add: s no_devices_names falsy_def)
  have h2: "\<not> falsy (get_output_device (sound no_devices_env))"
    by (simp add: s no_devices_names falsy_def)
  have f1: "first_stream no_devices_env =
      RaisesValueError ''No input device matching Dexent Virtual Input''"
    by (simp add: no_devices_env_def)
  have f2: "fallback_stream no_devices_env \<noteq> Opened" by (simp add: no_devices_env_def)
  have h3: "first_stream no_devices_env = RaisesError ''No input device matching Dexent Virtual Input''
         \<or> (first_stream no_devices_env =
              RaisesValueError ''No input device matching Dexent Virtual Input''
            \<and> fallback_stream no_devices_env \<noteq> Opened)"
    using f1 f2 by simp
  have r: "ap_running (start (audio_processor_init 16000 1024))"
    by (simp add: start_def audio_processor_init_def)
  have pc: "process_calls (start (audio_processor_init 16000 1024)) = []"
    by (simp add: start_def audio_processor_init_def)
  show ?thesis
    using stream_failure_skips_mock_loop[OF h1 h2 h3, of 1000 "start (audio_processor_init 16000 1024)"]
      h1 h2 f1 f2 r
    by (simp add: pc)
qed

text \<open>
  Claim C8 (amended). The mock signal has \<open>3 * sample_rate\<close> samples: a 440 Hz sine of
  amplitude 0.3 plus 0.05 times the noise samples drawn in this run from a generator that is
  not seeded. Whatever the rounding of the arithmetic, two runs with the same configuration
  that draw the same noise samples produce the same signal and the same chunks; the signal
  is reproducible only up to the noise drawn. Without rounding, sample \<open>k\<close> is the sine
  at time \<open>k / sample_rate\<close> plus 0.05 times the \<open>k\<close>-th noise sample.
\<close>

theorem mock_signal_determined_by_noise:
  "length (mock_audio fa sr n1) = 3 * sr
   \<and> ((\<forall>i < 3 * sr. n1 i = n2 i) \<longrightarrow>
        mock_audio fa sr n1 = mock_audio fa sr n2
        \<and> slice_chunks b (mock_audio fa sr n1) = slice_chunks b (mock_audio fa sr n2))
   \<and> (k < 3 * sr \<longrightarrow>
        mock_audio exact_arith sr n1 ! k =
          3 / 10 * sin (2 * pi * 440 * (real k / real sr)) + 5 / 100 * n1 k)"
  using mock_audio_cong[of sr n1 n2 fa] length_mock_audio[of fa sr n1]
    nth_mock_audio_exact[of k sr n1]
  by simp

theorem mock_signal_determined_by_noise_witness:
  "quiet_noise 0 = late_noise 0 \<and> quiet_noise 1 = late_noise 1 \<and> quiet_noise 2 = late_noise 2
   \<and> quiet_noise 3 \<noteq> late_noise 3
   \<and> mock_audio exact_arith 1 quiet_noise = mock_audio exact_arith 1 late_noise
   \<and> slice_chunks 2 (mock_audio exact_arith 1 quiet_noise) =
       slice_chunks 2 (mock_audio exact_arith 1 late_noise)
   \<and> length (mock_audio exact_arith 1 quiet_noise) = 3
   \<and> mock_audio exact_arith 1 quiet_noise ! 0 = 0"
proof -
  have ag: "\<forall>i < 3 * 1. quiet_noise i = late_noise i"
    by (simp add: quiet_noise_def late_noise_def)
  note th = mock_signal_determined_by_noise[of exact_arith 1 quiet_noise late_noise 2 0]
  have c1: "mock_audio exact_arith 1 quiet_noise = mock_audio exact_arith 1 late_noise"
    using th ag by blast
  have c2: "slice_chunks 2 (mock_audio exact_arith 1 quiet_noise) =
      slice_chunks 2 (mock_audio exact_arith 1 late_noise)"
    using th ag by blast
  have c3: "length (mock_audio exact_arith 1 quiet_noise) = 3" using th by simp
  have c4: "mock_audio exact_arith 1 quiet_noise ! 0 = 0" using th by (simp add: quiet_noise_def)
  show ?thesis
    using c1 c2 c3 c4 by (simp add: quiet_noise_def late_noise_def)
qed

text \<open>
  The claim as stated fails: two runs at 16000 Hz with chunks of 1024 samples, one drawing
  the noise 0 and the other the noise 1 throughout, produce different signals and different
  chunks. Their first samples are 0 and 0.05 in the arithmetic without rounding.
\<close>

theorem mock_signal_differs_between_runs_counterexample:
  "mock_audio exact_arith 16000 quiet_noise \<noteq> mock_audio exact_arith 16000 unit_noise
   \<and> slice_chunks 1024 (mock_audio exact_arith 16000 quiet_noise) \<noteq>
       slice_chunks 1024 (mock_audio exact_arith 16000 unit_noise)
   \<and> mock_audio exact_arith 16000 quiet_noise ! 0 = 0
   \<and> mock_audio exact_arith 16000 unit_noise ! 0 = 5 / 100"
proof -
  have z: "(0::nat) < 3 * 16000" by simp
  have f: "mock_audio exact_arith 16000 quiet_noise ! 0 = 0"
    using nth_mock_audio_exact[OF z, of quiet_noise] by (simp add: quiet_noise_def)
  have g: "mock_audio exact_arith 16000 unit_noise ! 0 = 5 / 100"
    using nth_mock_audio_exact[OF z, of unit_noise] by (simp add: unit_noise_def)
  have d: "mock_audio exact_arith 16000 quiet_noise \<noteq> mock_audio exact_arith 16000 unit_noise"
  proof
    assume "mock_audio exact_arith 16000 quiet_noise = mock_audio exact_arith 16000 unit_noise"
    then have "mock_audio exact_arith 16000 quiet_noise ! 0 =
        mock_audio exact_arith 16000 unit_noise ! 0" by (rule arg_cong)
    then show False by (simp add: f g)
  qed
  have p: "(0::nat) < 1024" by simp
  have e: "slice_chunks 1024 (mock_audio exact_arith 16000 quiet_noise) \<noteq>
       slice_chunks 1024 (mock_audio exact_arith 16000 unit_noise)"
    using d by (simp only: slice_chunks_eq_iff[OF p] not_False_eq_True)
  show ?thesis using d e f g by (intro conjI)
qed



text \<open>
  Claim C10. Every call appends the incoming chunk to the field \<open>buffer\<close>; after a
  session from a fresh context the field is the concatenation of all chunks passed, so its
  length is the sum of their lengths. The field is never read: changing it in the argument
  changes nothing in the response but the field itself. A silent chunk in the Idle state
  still changes the context.
\<close>

theorem buffer_accumulates_every_chunk:
  "buffer (r_context (real_time_translate self x c tg sl ip vm)) = buffer (context_or_fresh c) @ x
   \<and> buffer (context_or_fresh (feed_context self tg sl ip vm None xs)) = concat xs
   \<and> length (buffer (context_or_fresh (feed_context self tg sl ip vm None xs))) =
       sum_list (map length xs)
   \<and> real_time_translate self x (Some (k\<lparr>buffer := b\<rparr>)) tg sl ip vm =
       (real_time_translate self x (Some k) tg sl ip vm)
         \<lparr>r_context := (r_context (real_time_translate self x (Some k) tg sl ip vm))
                          \<lparr>buffer := b @ x\<rparr>\<rparr>
   \<and> (\<not> detect_speech x default_threshold \<and> \<not> is_speaking k \<longrightarrow>
        buffer (r_context (real_time_translate self x (Some k) tg sl ip vm)) = buffer k @ x
        \<and> r_context (real_time_translate self x (Some k) tg sl ip vm) \<noteq> k)"
proof -
  have b: "buffer (context_or_fresh (feed_context self tg sl ip vm None xs)) = concat xs"
    using buffer_feed[of self tg sl ip vm None xs]
    by (simp add: context_or_fresh_def fresh_context_def)
  have m: "\<not> detect_speech x default_threshold \<and> \<not> is_speaking k \<longrightarrow>
        buffer (r_context (real_time_translate self x (Some k) tg sl ip vm)) = buffer k @ x
        \<and> r_context (real_time_translate self x (Some k) tg sl ip vm) \<noteq> k"
  proof (intro impI conjI)
    show "buffer (r_context (real_time_translate self x (Some k) tg sl ip vm)) = buffer k @ x"
      by (simp add: buffer_step context_or_fresh_def)
  next
    assume h: "\<not> detect_speech x default_threshold \<and> \<not> is_speaking k"
    then have "silence_frames (r_context (real_time_translate self x (Some k) tg sl ip vm)) =
        silence_frames k + 1"
      by (simp add: idle_silence_mutates)
    then show "r_context (real_time_translate self x (Some k) tg sl ip vm) \<noteq> k"
      by auto
  qed
  show ?thesis
    using b m buffer_step[of self x c tg sl ip vm] buffer_not_read[where self=self and x=x and k=k and b=b and tg=tg and sl=sl and ip=ip and vm=vm]
    by (simp add: length_concat)
qed

theorem buffer_accumulates_every_chunk_witness:
  "\<not> detect_speech silent_chunk default_threshold \<and> \<not> is_speaking fresh_context
   \<and> buffer (r_context (real_time_translate stub_manager silent_chunk (Some fresh_context)
         ''en'' None True None)) = [0, 0]
   \<and> r_context (real_time_translate stub_manager silent_chunk (Some fresh_context)
         ''en'' None True None) \<noteq> fresh_context
   \<and> buffer (context_or_fresh (feed_context stub_manager ''en'' None True None None
         [speech_chunk, silent_chunk, silent_chunk])) = [1, 0, 0, 0, 0, 0]"
proof -
  have h3: "\<not> detect_speech silent_chunk default_threshold"
    by (simp add: detect_speech_def mean_square_def silent_chunk_def default_threshold_def)
  have h2: "\<not> is_speaking fresh_context" by (simp add: fresh_context_def)
  note th = buffer_accumulates_every_chunk[where self=stub_manager and x=silent_chunk
      and c=None and tg="''en''" and sl=None and ip=True and vm=None
      and xs="[speech_chunk, silent_chunk, silent_chunk]" and k=fresh_context and b="[]"]
  have b0: "buffer fresh_context = []" by (simp add: fresh_context_def)
  show ?thesis
    using th h3 h2 by (simp add: b0 speech_chunk_def silent_chunk_def)
qed

end
